theory Spec2Isabelle
  imports Complex_Main
begin

section \<open>JavaScript values used by the client\<close>

text \<open>
  A JavaScript \<^verbatim>\<open>number\<close> is a rational here, with \<open>None\<close> for \<^verbatim>\<open>NaN\<close>: every
  comparison with \<^verbatim>\<open>NaN\<close> is false, which is what \<open>num_ge\<close> and \<open>num_lt\<close> return.
  Quotients are exact. The code divides a whole number of milliseconds by 60000 or by
  3600000 and compares the result with 14, 15, 23 or 24; the nearest quotient below
  such a threshold is farther from it than the rounding of a double, so the rounded
  quotient compares as the exact one does.
\<close>

type_synonym number = "rat option"

definition num_sub :: "number \<Rightarrow> number \<Rightarrow> number" where
  "num_sub a b = (case a of None \<Rightarrow> None | Some x \<Rightarrow> (case b of None \<Rightarrow> None | Some y \<Rightarrow> Some (x - y)))"

definition num_div :: "number \<Rightarrow> rat \<Rightarrow> number" where
  "num_div a k = (case a of None \<Rightarrow> None | Some x \<Rightarrow> Some (x / k))"

definition num_ge :: "number \<Rightarrow> rat \<Rightarrow> bool" where
  "num_ge a k = (case a of None \<Rightarrow> False | Some x \<Rightarrow> k \<le> x)"

definition num_lt :: "number \<Rightarrow> rat \<Rightarrow> bool" where
  "num_lt a k = (case a of None \<Rightarrow> False | Some x \<Rightarrow> x < k)"

text \<open>
  A \<^verbatim>\<open>Date\<close> holds a time in milliseconds, or is an invalid date, which
  \<^verbatim>\<open>new Date(s)\<close> returns for a string it cannot read and whose \<^verbatim>\<open>getTime()\<close> is
  \<^verbatim>\<open>NaN\<close>.
\<close>

datatype Date = Date int | Invalid_Date

definition getTime :: "Date \<Rightarrow> number" where
  "getTime d = (case d of Date t \<Rightarrow> Some (of_int t) | Invalid_Date \<Rightarrow> None)"

text \<open>
  Truthiness of a \<^verbatim>\<open>string | null\<close>: \<^verbatim>\<open>null\<close> and the empty string are falsy.
\<close>

definition truthy :: "string option \<Rightarrow> bool" where
  "truthy v = (case v of None \<Rightarrow> False | Some s \<Rightarrow> s \<noteq> [])"

text \<open>
  \<^verbatim>\<open>localStorage\<close> maps keys to strings. \<^verbatim>\<open>getItem\<close> is application of the map.
  \<^verbatim>\<open>setItem\<close> can throw (the storage is full or refused): \<open>trySetItem\<close> is the
  call in a browser that takes the writes \<open>accepts\<close> holds of and throws on the
  others, \<open>None\<close> standing for the exception.
\<close>

type_synonym storage = "string \<rightharpoonup> string"

definition setItem :: "string \<Rightarrow> string \<Rightarrow> storage \<Rightarrow> storage" where
  "setItem k v ls = ls(k \<mapsto> v)"


definition removeItem :: "string \<Rightarrow> storage \<Rightarrow> storage" where
  "removeItem k ls = ls(k := None)"

text \<open>
  What an awaited \<^verbatim>\<open>fetch\<close> followed by \<^verbatim>\<open>response.json()\<close> can do: the request
  rejects (network error), the body is not JSON, the body is the JSON value
  \<^verbatim>\<open>null\<close> (reading a property of it throws), or the body is a value whose
  properties can be read.
\<close>

datatype 'r fetched = Fetch_rejects | Json_rejects | Body_null | Body 'r


section \<open>Session manager (\<^verbatim>\<open>ElderlyAuthContext.tsx\<close>)\<close>

record ElderlyData =
  elderly_userid :: string
  preferred_name :: string
  admin_id :: string
  caregiver_assigned :: string

text \<open>
  The provider's state variables, together with the browser's \<^verbatim>\<open>localStorage\<close>
  that \<^verbatim>\<open>login\<close>, \<^verbatim>\<open>logout\<close> and \<^verbatim>\<open>refreshActivity\<close> write. The \<^verbatim>\<open>apiUrl\<close>
  variable only selects the host of the request and is left out: the outcome of the
  request is an argument.
\<close>

record auth_state =
  token :: "string option"
  elderlyData :: "ElderlyData option"
  lastActivity :: "Date option"
  tokenCreatedAt :: "Date option"
  logoutWarning :: "string option"
  localStorage :: storage

definition isAuthenticated :: "auth_state \<Rightarrow> bool" where
  "isAuthenticated s = truthy (token s)"

text \<open>
  The lazy initialisers of the state variables: what a (re)load of the page computes
  from the storage. \<open>newDate\<close> is \<^verbatim>\<open>new Date(string)\<close>; \<open>parseData\<close> is
  \<^verbatim>\<open>JSON.parse\<close>, with \<open>None\<close> when it throws (caught, giving \<^verbatim>\<open>null\<close>) or yields
  \<^verbatim>\<open>null\<close>.
\<close>

definition initialState ::
  "(string \<Rightarrow> Date) \<Rightarrow> (string \<Rightarrow> ElderlyData option) \<Rightarrow> storage \<Rightarrow> auth_state" where
  "initialState newDate parseData ls =
     \<lparr> token = ls ''elderlyToken'',
       elderlyData = (case ls ''elderlyData'' of None \<Rightarrow> None
                      | Some d \<Rightarrow> if d \<noteq> [] then parseData d else None),
       lastActivity = (case ls ''elderlyLastActivity'' of None \<Rightarrow> None
                      | Some a \<Rightarrow> if a \<noteq> [] then Some (newDate a) else None),
       tokenCreatedAt = (case ls ''elderlyTokenCreatedAt'' of None \<Rightarrow> None
                      | Some t \<Rightarrow> if t \<noteq> [] then Some (newDate t) else None),
       logoutWarning = None,
       localStorage = ls \<rparr>"

definition logout :: "auth_state \<Rightarrow> auth_state" where
  "logout s =
     s\<lparr> token := None,
        elderlyData := None,
        lastActivity := None,
        tokenCreatedAt := None,
        logoutWarning := None,
        localStorage :=
          removeItem ''elderlyTokenCreatedAt''
            (removeItem ''elderlyLastActivity''
              (removeItem ''elderlyData'' (localStorage s))) \<rparr>"

text \<open>
  \<open>checkExpiration\<close> is the body of the interval callback; \<open>now\<close> is the time
  \<^verbatim>\<open>new Date()\<close> reads, \<open>la\<close> and \<open>tc\<close> are the \<^verbatim>\<open>lastActivity\<close> and
  \<^verbatim>\<open>tokenCreatedAt\<close> the effect closed over. The branches are in the order of the
  source.
\<close>

definition inactiveMinutes :: "int \<Rightarrow> Date \<Rightarrow> number" where
  "inactiveMinutes now la = num_div (num_sub (Some (of_int now)) (getTime la)) (1000 * 60)"

definition tokenAgeHours :: "int \<Rightarrow> Date \<Rightarrow> number" where
  "tokenAgeHours now tc = num_div (num_sub (Some (of_int now)) (getTime tc)) (1000 * 60 * 60)"

definition checkExpiration :: "int \<Rightarrow> Date \<Rightarrow> Date \<Rightarrow> auth_state \<Rightarrow> auth_state" where
  "checkExpiration now la tc s =
     (if num_ge (inactiveMinutes now la) 14 \<and> num_lt (inactiveMinutes now la) 15
        then s\<lparr>logoutWarning := Some ''Logging-out in 1 minute due to inactivity''\<rparr>
      else if num_ge (tokenAgeHours now tc) 23 \<and> num_lt (tokenAgeHours now tc) 24
        then s\<lparr>logoutWarning := Some ''Logging-out in 1 minute''\<rparr>
      else if num_ge (inactiveMinutes now la) 15
        then logout s
      else if num_ge (tokenAgeHours now tc) 24
        then logout s
      else s\<lparr>logoutWarning := None\<rparr>)"

text \<open>
  One firing of the 10-second interval. The effect installs the interval only when
  \<^verbatim>\<open>token\<close>, \<^verbatim>\<open>lastActivity\<close> and \<^verbatim>\<open>tokenCreatedAt\<close> are all truthy (a
  \<^verbatim>\<open>Date\<close> object always is); otherwise no check runs.
\<close>

definition expiryTick :: "int \<Rightarrow> auth_state \<Rightarrow> auth_state" where
  "expiryTick now s =
     (if \<not> truthy (token s) then s
      else case lastActivity s of None \<Rightarrow> s
      | Some la \<Rightarrow> (case tokenCreatedAt s of None \<Rightarrow> s
      | Some tc \<Rightarrow> checkExpiration now la tc s))"

text \<open>
  \<open>login\<close>; \<open>now\<close> is the time \<^verbatim>\<open>new Date()\<close> reads, \<open>toISOString\<close> and
  \<open>stringify\<close> are the browser's \<^verbatim>\<open>Date.prototype.toISOString\<close> and
  \<^verbatim>\<open>JSON.stringify\<close>. This is \<open>login\<close> in a browser that takes its four writes.
\<close>

definition login ::
  "(int \<Rightarrow> string) \<Rightarrow> (ElderlyData \<Rightarrow> string) \<Rightarrow> int \<Rightarrow> string \<Rightarrow> ElderlyData \<Rightarrow> auth_state \<Rightarrow> auth_state" where
  "login toISOString stringify now newToken data s =
     s\<lparr> token := Some newToken,
        elderlyData := Some data,
        lastActivity := Some (Date now),
        tokenCreatedAt := Some (Date now),
        logoutWarning := None,
        localStorage :=
          setItem ''elderlyTokenCreatedAt'' (toISOString now)
            (setItem ''elderlyLastActivity'' (toISOString now)
              (setItem ''elderlyData'' (stringify data)
                (setItem ''elderlyToken'' newToken (localStorage s)))) \<rparr>"

text \<open>
  The JSON body of \<^verbatim>\<open>/refresh_elderly_activity\<close> as the code reads it: the
  truthiness of \<^verbatim>\<open>success\<close>, and \<^verbatim>\<open>new_token\<close> and \<^verbatim>\<open>message\<close> when present.
\<close>

record refresh_result =
  success :: bool
  new_token :: "string option"
  message :: "string option"



section \<open>Token expiry on the login page (\<^verbatim>\<open>pageBackup.tsx\<close>)\<close>

text \<open>
  A number as \<^verbatim>\<open>JSON.parse\<close> and the conversions of \<^verbatim>\<open><\<close> produce it: the value
  of a double, one of the two infinities (a literal such as \<^verbatim>\<open>1e999\<close> parses to
  one), or \<^verbatim>\<open>NaN\<close>. \<open>double_less d k\<close> is \<^verbatim>\<open>d < k\<close> for a finite \<open>k\<close>.
\<close>

datatype double = Finite rat | Pos_Infinity | Neg_Infinity | NaN

fun double_less :: "double \<Rightarrow> rat \<Rightarrow> bool" where
  "double_less (Finite x) k = (x < k)"
| "double_less Neg_Infinity k = True"
| "double_less Pos_Infinity k = False"
| "double_less NaN k = False"

text \<open>
  A value that \<^verbatim>\<open>JSON.parse\<close> returns. \<^verbatim>\<open>decodeJWT\<close> casts it to the interface
  \<^verbatim>\<open>JWTPayload\<close>, which declares \<^verbatim>\<open>exp\<close> as an optional number; the cast is not
  checked when the code runs, so the payload is whatever value the token encodes. An
  object lists its properties, each name once.
\<close>

datatype json =
    JNull
  | JBool bool
  | JNumber double
  | JString string
  | JArray "json list"
  | JObject "(string \<times> json) list"

text \<open>Truthiness: what \<^verbatim>\<open>!v\<close> negates.\<close>

fun truthy_json :: "json \<Rightarrow> bool" where
  "truthy_json JNull = False"
| "truthy_json (JBool b) = b"
| "truthy_json (JNumber d) = (d \<noteq> Finite 0 \<and> d \<noteq> NaN)"
| "truthy_json (JString s) = (s \<noteq> [])"
| "truthy_json (JArray vs) = True"
| "truthy_json (JObject kvs) = True"

text \<open>
  \<^verbatim>\<open>payload.exp\<close> for a payload that is not \<^verbatim>\<open>null\<close>: \<open>None\<close> is \<^verbatim>\<open>undefined\<close>,
  which is what every value but an object with that property gives.
\<close>

fun exp_of :: "json \<Rightarrow> json option" where
  "exp_of (JObject kvs) = map_of kvs ''exp''"
| "exp_of v = None"

text \<open>
  The browser functions \<^verbatim>\<open>decodeJWT\<close> and \<^verbatim>\<open>isTokenExpired\<close> rely on. The first
  three can throw, which is \<open>None\<close>. \<open>ToNumber\<close> is the conversion that \<^verbatim>\<open><\<close>
  applies to an operand that is a string, an array or an object.
\<close>

record browser =
  atob :: "string \<Rightarrow> string option"
  decodeURIComponent :: "string \<Rightarrow> string option"
  JSON_parse :: "string \<Rightarrow> json option"
  ToNumber :: "json \<Rightarrow> double"

text \<open>The number \<^verbatim>\<open><\<close> compares in place of its left operand.\<close>

fun toNumber :: "browser \<Rightarrow> json \<Rightarrow> double" where
  "toNumber B (JNumber d) = d"
| "toNumber B (JBool b) = (if b then Finite 1 else Finite 0)"
| "toNumber B JNull = Finite 0"
| "toNumber B v = ToNumber B v"

text \<open>\<^verbatim>\<open>String.prototype.split\<close> with a one-character separator.\<close>

fun split :: "char \<Rightarrow> string \<Rightarrow> string list" where
  "split c [] = [[]]"
| "split c (x # xs) =
     (if x = c then [] # split c xs
      else (case split c xs of [] \<Rightarrow> [[x]] | w # ws \<Rightarrow> (x # w) # ws))"

text \<open>Indexing an array: \<^verbatim>\<open>undefined\<close> beyond its end.\<close>

fun at_index :: "'a list \<Rightarrow> nat \<Rightarrow> 'a option" where
  "at_index [] i = None"
| "at_index (x # xs) 0 = Some x"
| "at_index (x # xs) (Suc i) = at_index xs i"

text \<open>\<^verbatim>\<open>replace(/a/g, b)\<close> for single characters.\<close>

definition replaceAll :: "char \<Rightarrow> char \<Rightarrow> string \<Rightarrow> string" where
  "replaceAll a b s = map (\<lambda>c. if c = a then b else c) s"

definition hexDigit :: "nat \<Rightarrow> char" where
  "hexDigit d = ''0123456789abcdef'' ! (d mod 16)"

fun toString16 :: "nat \<Rightarrow> string" where
  "toString16 n = (if n < 16 then [hexDigit n] else toString16 (n div 16) @ [hexDigit (n mod 16)])"

declare toString16.simps [simp del]

text \<open>\<^verbatim>\<open>s.slice(-2)\<close>: the last two characters, or all of a shorter string.\<close>

definition slice_last2 :: "string \<Rightarrow> string" where
  "slice_last2 s = drop (length s - 2) s"

text \<open>The function mapped over the characters of the decoded segment.\<close>

definition percentEncode :: "char \<Rightarrow> string" where
  "percentEncode c = CHR ''%'' # slice_last2 (''00'' @ toString16 (of_char c))"

text \<open>
  \<open>decodeJWT\<close>. A token without a second segment makes \<^verbatim>\<open>split(".")[1]\<close>
  \<^verbatim>\<open>undefined\<close>, whose \<^verbatim>\<open>replace\<close> throws; that and every other exception is caught
  and gives \<^verbatim>\<open>null\<close>.
\<close>

definition decodeJWT :: "browser \<Rightarrow> string \<Rightarrow> json" where
  "decodeJWT B tok =
     (case at_index (split CHR ''.'' tok) 1 of
        None \<Rightarrow> JNull
      | Some base64Url \<Rightarrow>
          (case atob B (replaceAll CHR ''_'' CHR ''/'' (replaceAll CHR ''-'' CHR ''+'' base64Url)) of
             None \<Rightarrow> JNull
           | Some bin \<Rightarrow>
               (case decodeURIComponent B (concat (map percentEncode bin)) of
                  None \<Rightarrow> JNull
                | Some jsonPayload \<Rightarrow>
                    (case JSON_parse B jsonPayload of
                       None \<Rightarrow> JNull
                     | Some payload \<Rightarrow> payload))))"

text \<open>
  \<open>isTokenExpired\<close>; \<open>date_now\<close> is \<^verbatim>\<open>Date.now()\<close> in milliseconds. The first two
  tests are \<^verbatim>\<open>!payload || !payload.exp\<close>, the last is \<^verbatim>\<open>payload.exp < now\<close>.
\<close>

definition isTokenExpired :: "browser \<Rightarrow> int \<Rightarrow> string \<Rightarrow> bool" where
  "isTokenExpired B date_now tok =
     (let payload = decodeJWT B tok
      in if \<not> truthy_json payload then True
         else case exp_of payload of
                None \<Rightarrow> True
              | Some e \<Rightarrow>
                  if \<not> truthy_json e then True
                  else double_less (toNumber B e) (of_int \<lfloor>(of_int date_now :: rat) / 1000\<rfloor>))"

text \<open>
  The condition of the effect that sends an authenticated visitor of the login page on
  to the chat.
\<close>

definition redirectsToChat :: "browser \<Rightarrow> int \<Rightarrow> auth_state \<Rightarrow> bool" where
  "redirectsToChat B date_now a =
     (isAuthenticated a \<and> truthy (token a) \<and>
      (case token a of None \<Rightarrow> False | Some t \<Rightarrow> \<not> isTokenExpired B date_now t))"


section \<open>Face verification on the login page (\<^verbatim>\<open>pageBackup.tsx\<close>)\<close>

datatype step = Start | Phone | Face

text \<open>
  \<^verbatim>\<open>ElderlyDetails\<close>; its optional fields carry the suffix \<open>_opt\<close>, their names
  being those of \<^verbatim>\<open>ElderlyData\<close>.
\<close>

record ElderlyDetails =
  userid :: string
  preferred_name_opt :: "string option"
  admin_id_opt :: "string option"
  caregiver_assigned_opt :: "string option"
  phone_number :: "string option"

text \<open>
  The state of \<^verbatim>\<open>ElderlyLoginPage\<close>: its state variables, its three refs
  (\<open>videoRef\<close> and \<open>canvasRef\<close> say whether the element is mounted; \<open>streamRef\<close> is
  \<open>None\<close> for \<^verbatim>\<open>null\<close> and otherwise says whether the stream's tracks are live), the
  session manager it uses and the route the router was last sent to. The page's
  \<^verbatim>\<open>error\<close> and \<^verbatim>\<open>isLoading\<close> carry the suffix \<open>_login\<close>.
\<close>

record page_state =
  showWelcomeCard :: bool
  step :: step
  phoneNumber :: string
  elderlyDetails :: "ElderlyDetails option"
  isCapturing :: bool
  error_login :: string
  isLoading_login :: bool
  faceVerificationFailures :: nat
  videoRef :: bool
  canvasRef :: bool
  streamRef :: "bool option"
  auth :: auth_state
  route :: string

text \<open>
  The body of \<^verbatim>\<open>/verify_elderly_face\<close> as the code reads it (suffix \<open>_v\<close>).
\<close>

record verify_result =
  success_v :: bool
  token_v :: "string option"
  message_v :: "string option"

text \<open>\<^verbatim>\<open>a || b\<close> on an optional string and a default.\<close>

definition or_else :: "string option \<Rightarrow> string \<Rightarrow> string" where
  "or_else a b = (case a of None \<Rightarrow> b | Some s \<Rightarrow> if s \<noteq> [] then s else b)"

text \<open>\<^verbatim>\<open>a ?? b\<close> on an optional string and a default.\<close>

definition nullish_else :: "string option \<Rightarrow> string \<Rightarrow> string" where
  "nullish_else a b = (case a of None \<Rightarrow> b | Some s \<Rightarrow> s)"

definition stopTracks :: "bool option \<Rightarrow> bool option" where
  "stopTracks r = (case r of None \<Rightarrow> None | Some _ \<Rightarrow> Some False)"

text \<open>
  \<open>captureAndVerify\<close>. \<open>has2d\<close> says whether \<^verbatim>\<open>canvas.getContext("2d")\<close> returns a
  context (the code throws when it does not), \<open>resp\<close> is what the verification
  request does. The \<^verbatim>\<open>catch\<close> block handles every exception alike, and the
  \<^verbatim>\<open>finally\<close> block clears \<^verbatim>\<open>isLoading\<close> on each path that entered the
  \<^verbatim>\<open>try\<close>.
\<close>

definition verifyCaught :: "page_state \<Rightarrow> page_state" where
  "verifyCaught p =
     p\<lparr> error_login := ''Failed to verify face. Please try again.'',
        faceVerificationFailures := faceVerificationFailures p + 1 \<rparr>"

definition captureAndVerify ::
  "(int \<Rightarrow> string) \<Rightarrow> (ElderlyData \<Rightarrow> string) \<Rightarrow> int \<Rightarrow> bool \<Rightarrow> verify_result fetched
     \<Rightarrow> page_state \<Rightarrow> page_state" where
  "captureAndVerify toISOString stringify now has2d resp p =
     (if \<not> videoRef p \<or> \<not> canvasRef p then p
      else case elderlyDetails p of
        None \<Rightarrow> p
      | Some d \<Rightarrow>
          (let p1 = p\<lparr>isLoading_login := True, error_login := []\<rparr>;
               p2 = (if \<not> has2d then verifyCaught p1
                     else case resp of
                       Fetch_rejects \<Rightarrow> verifyCaught p1
                     | Json_rejects \<Rightarrow> verifyCaught p1
                     | Body_null \<Rightarrow> verifyCaught p1
                     | Body r \<Rightarrow>
                         (case (if success_v r \<and> truthy (token_v r) then token_v r else None) of
                            Some t \<Rightarrow>
                              p1\<lparr> faceVerificationFailures := 0,
                                  streamRef := stopTracks (streamRef p1),
                                  auth := login toISOString stringify now t
                                            \<lparr> elderly_userid = userid d,
                                              preferred_name = nullish_else (preferred_name_opt d) [],
                                              admin_id = nullish_else (admin_id_opt d) [],
                                              caregiver_assigned = nullish_else (caregiver_assigned_opt d) [] \<rparr>
                                            (auth p1),
                                  route := ''/chat'' \<rparr>
                          | None \<Rightarrow>
                              p1\<lparr> faceVerificationFailures := faceVerificationFailures p1 + 1,
                                  error_login := or_else (message_v r) ''Face verification failed'' \<rparr>))
           in p2\<lparr>isLoading_login := False\<rparr>))"

definition handlePhoneSubmit :: "page_state \<Rightarrow> page_state" where
  "handlePhoneSubmit p =
     p\<lparr> error_login := [],
        isLoading_login := True,
        faceVerificationFailures := 0,
        step := Face \<rparr>"

definition handleBack :: "page_state \<Rightarrow> page_state" where
  "handleBack p =
     (let p1 = p\<lparr> streamRef := None,
                  isCapturing := False,
                  faceVerificationFailures := 0 \<rparr>;
          p2 = (if elderlyDetails p \<noteq> None \<and> phoneNumber p = []
                then p1\<lparr>step := Start, showWelcomeCard := False\<rparr>
                else p1\<lparr>step := Phone\<rparr>)
      in p2\<lparr>elderlyDetails := None, phoneNumber := [], error_login := []\<rparr>)"

definition handleEnterNumber :: "page_state \<Rightarrow> page_state" where
  "handleEnterNumber p =
     p\<lparr> auth := (auth p)\<lparr>localStorage := removeItem ''elderlyToken'' (localStorage (auth p))\<rparr>,
        streamRef := None,
        isCapturing := False,
        faceVerificationFailures := 0,
        step := Phone,
        elderlyDetails := None,
        phoneNumber := [],
        error_login := [] \<rparr>"

text \<open>
  The left button of the face step: its label and what a click on it runs. The
  button is disabled while \<^verbatim>\<open>isLoading\<close> is set.
\<close>

definition backButtonLabel :: "page_state \<Rightarrow> string" where
  "backButtonLabel p = (if 5 \<le> faceVerificationFailures p then ''Enter Number'' else ''Back'')"

definition backButtonClick :: "page_state \<Rightarrow> page_state" where
  "backButtonClick p = (if 5 \<le> faceVerificationFailures p then handleEnterNumber p else handleBack p)"

text \<open>A run of verification attempts, one outcome for each.\<close>

fun verifyEach ::
  "(int \<Rightarrow> string) \<Rightarrow> (ElderlyData \<Rightarrow> string) \<Rightarrow> int \<Rightarrow> (bool \<times> verify_result fetched) list
     \<Rightarrow> page_state \<Rightarrow> page_state" where
  "verifyEach toISOString stringify now [] p = p"
| "verifyEach toISOString stringify now ((has2d, resp) # rs) p =
     verifyEach toISOString stringify now rs (captureAndVerify toISOString stringify now has2d resp p)"

text \<open>
  An attempt fails when the context is missing, the request or its body fails, or the
  body does not carry both a truthy \<^verbatim>\<open>success\<close> and a truthy \<^verbatim>\<open>token\<close>.
\<close>

fun verificationFails :: "bool \<times> verify_result fetched \<Rightarrow> bool" where
  "verificationFails (has2d, Body r) = (\<not> has2d \<or> \<not> (success_v r \<and> truthy (token_v r)))"
| "verificationFails (has2d, _) = True"


section \<open>Chat page (\<^verbatim>\<open>chat/page copy.tsx\<close>)\<close>

text \<open>
  The file holds two chat components over the same state variables. The first
  (\<^verbatim>\<open>handleSendMessage\<close>) posts to \<^verbatim>\<open>/chat/elderly\<close> itself; the second
  (\<^verbatim>\<open>handleSend\<close>) goes through the hooks \<^verbatim>\<open>useProcessText\<close> and
  \<^verbatim>\<open>useProcessAudio\<close> and reacts to their responses in effects.
\<close>

datatype role = User | Assistant

record Message =
  role :: role
  content :: string
  timestamp :: int

text \<open>
  The two literals of the voice placeholder; the microphone emoji is its four UTF-8
  bytes.
\<close>

definition voice_placeholder :: string where
  "voice_placeholder = [CHR 0xF0, CHR 0x9F, CHR 0x8E, CHR 0xA4] @ '' Voice message...''"

definition voice_fallback :: string where
  "voice_fallback = [CHR 0xF0, CHR 0x9F, CHR 0x8E, CHR 0xA4] @ '' Voice message''"

text \<open>
  A response of the hooks. \<^verbatim>\<open>ProcessTextResponse\<close> declares \<^verbatim>\<open>audio\<close>,
  \<^verbatim>\<open>language\<close> and \<^verbatim>\<open>response\<close>, \<^verbatim>\<open>ProcessAudioResponse\<close> adds
  \<^verbatim>\<open>transcript\<close>; the page tests each for truthiness before use, so all are optional
  here. \<^verbatim>\<open>processing_info\<close> is never read. \<open>sessionId_body\<close> is a session id the
  backend puts in the body: neither interface declares it.
\<close>

record ProcessResponse =
  transcript :: "string option"
  audio :: "string option"
  language :: "string option"
  response :: "string option"
  sessionId_body :: "string option"

text \<open>
  The body of \<^verbatim>\<open>/chat/elderly\<close> as the first component reads it (suffix \<open>_c\<close>).
\<close>

record chat_result =
  success_c :: bool
  response_c :: "string option"
  message_c :: "string option"
  sessionId_c :: "string option"
  token_c :: "string option"

text \<open>
  \<^verbatim>\<open>postApi\<close> is not among the sources. A call of it either throws, which the hooks
  catch and log, or returns a value, \<open>None\<close> for \<^verbatim>\<open>null\<close>.
\<close>

datatype 'r posted = Throws | Returns "'r option"

text \<open>
  The requests the page has issued, with what each carries: the url, the text or the
  recorded chunks, and the session id (\<open>None\<close> when the payload has none).
\<close>

datatype request =
    PostText string string "string option"
  | PostAudio string "string list" "string option"
  | PostChatElderly string "string option"

text \<open>
  The state variables and refs of the page, the state of the two hooks, and the
  environment: \<open>recorders\<close> has one entry for each \<^verbatim>\<open>MediaRecorder\<close> created, true
  while it records, and \<open>mediaRecorderRef\<close> is an index into it; \<open>pendingMedia\<close> has
  one entry for each call of \<^verbatim>\<open>startRecording\<close> that awaits \<^verbatim>\<open>getUserMedia\<close>,
  holding the \<^verbatim>\<open>inputText\<close> the call closed over; \<open>requests\<close> lists the requests
  issued. Playing the returned audio is left out.
\<close>

record chat_state =
  messages :: "Message list"
  inputText :: string
  isLoading :: bool
  isMicMuted :: bool
  sessionId :: "string option"
  error :: string
  isRecording :: bool
  isProcessingAudio :: bool
  audioError :: string
  mediaRecorderRef :: "nat option"
  audioChunksRef :: "string list"
  textBeforeRecordingRef :: string
  audioUnlockedRef :: bool
  processTextResponse :: "ProcessResponse option"
  processTextResponseLoading :: bool
  processAudioResponse :: "ProcessResponse option"
  processAudioResponseLoading :: bool
  recorders :: "bool list"
  pendingMedia :: "string list"
  requests :: "request list"

definition initialChat :: chat_state where
  "initialChat =
     \<lparr> messages = [], inputText = [], isLoading = False, isMicMuted = True,
       sessionId = None, error = [], isRecording = False, isProcessingAudio = False,
       audioError = [], mediaRecorderRef = None, audioChunksRef = [],
       textBeforeRecordingRef = [], audioUnlockedRef = False,
       processTextResponse = None, processTextResponseLoading = False,
       processAudioResponse = None, processAudioResponseLoading = False,
       recorders = [], pendingMedia = [], requests = [] \<rparr>"

text \<open>
  \<^verbatim>\<open>trim\<close> on the ASCII white space (tab, line feed, vertical tab, form feed,
  carriage return, space).
\<close>

definition isSpace :: "char \<Rightarrow> bool" where
  "isSpace c = (c \<in> set [CHR 0x09, CHR 0x0A, CHR 0x0B, CHR 0x0C, CHR 0x0D, CHR 0x20])"

definition trim :: "string \<Rightarrow> string" where
  "trim s = rev (dropWhile isSpace (rev (dropWhile isSpace s)))"

text \<open>
  \<open>handleInputChange\<close> stores the text; the activity refresh it schedules acts on
  the session manager only.
\<close>

definition handleInputChange :: "string \<Rightarrow> chat_state \<Rightarrow> chat_state" where
  "handleInputChange v s = s\<lparr>inputText := v\<rparr>"

subsection \<open>Recording\<close>

text \<open>
  \<open>startRecording\<close> runs up to its \<^verbatim>\<open>await\<close>; the call then waits while other
  handlers run. \<open>mediaGranted\<close> is the rest of the \<^verbatim>\<open>try\<close> block, run when the
  oldest waiting call gets its stream, and \<open>mediaDenied\<close> is the \<^verbatim>\<open>catch\<close> block,
  run when the request is refused.
\<close>

definition startRecording :: "chat_state \<Rightarrow> chat_state" where
  "startRecording s = s\<lparr>audioError := [], pendingMedia := pendingMedia s @ [inputText s]\<rparr>"

definition mediaGranted :: "chat_state \<Rightarrow> chat_state" where
  "mediaGranted s =
     (case pendingMedia s of
        [] \<Rightarrow> s
      | closedInputText # waiting \<Rightarrow>
          s\<lparr> pendingMedia := waiting,
             mediaRecorderRef := Some (length (recorders s)),
             audioChunksRef := [],
             textBeforeRecordingRef := closedInputText,
             recorders := recorders s @ [True],
             isRecording := True,
             isMicMuted := False \<rparr>)"

definition mediaDenied :: "chat_state \<Rightarrow> chat_state" where
  "mediaDenied s =
     (case pendingMedia s of
        [] \<Rightarrow> s
      | closedInputText # waiting \<Rightarrow>
          s\<lparr> pendingMedia := waiting,
             audioError := ''Failed to access microphone'',
             isMicMuted := True \<rparr>)"

definition ondataavailable :: "string \<Rightarrow> chat_state \<Rightarrow> chat_state" where
  "ondataavailable chunk s =
     (if 0 < length chunk then s\<lparr>audioChunksRef := audioChunksRef s @ [chunk]\<rparr> else s)"

definition stopRecording :: "chat_state \<Rightarrow> chat_state" where
  "stopRecording s =
     (case mediaRecorderRef s of
        None \<Rightarrow> s
      | Some r \<Rightarrow>
          if isRecording s
          then s\<lparr>recorders := (recorders s)[r := False], isRecording := False, isMicMuted := True\<rparr>
          else s)"

definition handleMicToggle :: "chat_state \<Rightarrow> chat_state" where
  "handleMicToggle s =
     (let s1 = s\<lparr>audioUnlockedRef := True\<rparr>
      in if isRecording s1 then stopRecording s1 else startRecording s1)"

text \<open>The number of recorders that are recording.\<close>

definition activeCaptures :: "chat_state \<Rightarrow> nat" where
  "activeCaptures s = length (filter (\<lambda>b. b) (recorders s))"

subsection \<open>The second component: sending through the hooks\<close>

definition sendAudioForTranscription :: "string list \<Rightarrow> chat_state \<Rightarrow> chat_state" where
  "sendAudioForTranscription audioBlob s =
     s\<lparr> isProcessingAudio := True,
        audioError := [],
        error := [],
        processAudioResponseLoading := True,
        requests := requests s @
          [PostAudio ''process_audio'' audioBlob (if truthy (sessionId s) then sessionId s else None)] \<rparr>"

text \<open>The \<^verbatim>\<open>onstop\<close> handler of a recorder.\<close>

definition onstop :: "int \<Rightarrow> chat_state \<Rightarrow> chat_state" where
  "onstop now s =
     sendAudioForTranscription (audioChunksRef s)
       (s\<lparr>messages := messages s @ [\<lparr>role = User, content = voice_placeholder, timestamp = now\<rparr>]\<rparr>)"

text \<open>
  The loop of the audio effect: \<open>replacePlaceholder n c ms\<close> looks at the indices
  \<open>n - 1\<close> down to \<open>0\<close> and rewrites the first placeholder of the user it meets.
\<close>

fun replacePlaceholder :: "nat \<Rightarrow> string \<Rightarrow> Message list \<Rightarrow> Message list" where
  "replacePlaceholder 0 c ms = ms"
| "replacePlaceholder (Suc i) c ms =
     (if role (ms ! i) = User \<and> content (ms ! i) = voice_placeholder
      then ms[i := (ms ! i)\<lparr>content := c\<rparr>]
      else replacePlaceholder i c ms)"

text \<open>
  The effect on \<^verbatim>\<open>processAudioResponse\<close>, for a response that is not \<^verbatim>\<open>null\<close>: the
  first \<^verbatim>\<open>setMessages\<close> (\<open>updated\<close>), then the second with \<open>newMessages\<close>.
\<close>

definition audioResponseEffect :: "int \<Rightarrow> ProcessResponse \<Rightarrow> chat_state \<Rightarrow> chat_state" where
  "audioResponseEffect now r s =
     (let replaced = replacePlaceholder (length (messages s))
                       (or_else (transcript r) voice_fallback) (messages s);
          updated = (if truthy (response r)
                     then replaced @ [\<lparr>role = Assistant, content = or_else (response r) [], timestamp = now\<rparr>]
                     else replaced);
          newMessages = (if truthy (response r)
                         then [\<lparr>role = Assistant, content = or_else (response r) [], timestamp = now\<rparr>]
                         else [])
      in s\<lparr> messages := (if 0 < length newMessages then updated @ newMessages else updated),
            isProcessingAudio := False,
            textBeforeRecordingRef := [] \<rparr>)"

text \<open>
  \<^verbatim>\<open>createProcessAudio\<close> settling: the hook stores a returned response and clears its
  loading flag; a stored response that is not \<^verbatim>\<open>null\<close> runs the effect.
\<close>

definition processAudioSettled :: "int \<Rightarrow> ProcessResponse posted \<Rightarrow> chat_state \<Rightarrow> chat_state" where
  "processAudioSettled now outcome s =
     (case outcome of
        Throws \<Rightarrow> s\<lparr>processAudioResponseLoading := False\<rparr>
      | Returns None \<Rightarrow> s\<lparr>processAudioResponse := None, processAudioResponseLoading := False\<rparr>
      | Returns (Some r) \<Rightarrow>
          audioResponseEffect now r
            (s\<lparr>processAudioResponse := Some r, processAudioResponseLoading := False\<rparr>))"

definition handleSend :: "int \<Rightarrow> chat_state \<Rightarrow> chat_state" where
  "handleSend now s =
     (if trim (inputText s) = [] \<or> processTextResponseLoading s then s
      else
        (let userMessage = trim (inputText s)
         in s\<lparr> inputText := [],
               isLoading := True,
               messages := messages s @ [\<lparr>role = User, content = userMessage, timestamp = now\<rparr>],
               processTextResponseLoading := True,
               requests := requests s @ [PostText ''process_text'' userMessage None] \<rparr>))"

definition textResponseEffect :: "int \<Rightarrow> ProcessResponse \<Rightarrow> chat_state \<Rightarrow> chat_state" where
  "textResponseEffect now r s =
     (let s1 = s\<lparr>isLoading := False\<rparr>
      in if truthy (response r)
         then s1\<lparr>messages := messages s1 @
                   [\<lparr>role = Assistant, content = or_else (response r) [], timestamp = now\<rparr>]\<rparr>
         else s1)"

definition processTextSettled :: "int \<Rightarrow> ProcessResponse posted \<Rightarrow> chat_state \<Rightarrow> chat_state" where
  "processTextSettled now outcome s =
     (case outcome of
        Throws \<Rightarrow> s\<lparr>processTextResponseLoading := False\<rparr>
      | Returns None \<Rightarrow> s\<lparr>processTextResponse := None, processTextResponseLoading := False\<rparr>
      | Returns (Some r) \<Rightarrow>
          textResponseEffect now r
            (s\<lparr>processTextResponse := Some r, processTextResponseLoading := False\<rparr>))"

text \<open>
  What can happen to the second component, and the handler each event runs. The
  microphone button is disabled while \<^verbatim>\<open>isLoading\<close> or \<^verbatim>\<open>isProcessingAudio\<close> is
  set. The text area, whose Enter key sends, is disabled while \<^verbatim>\<open>isLoading\<close> is
  set and read-only while \<^verbatim>\<open>isRecording\<close> or \<^verbatim>\<open>isProcessingAudio\<close> is.
\<close>

datatype event =
    ClickMic
  | MediaGranted
  | MediaDenied
  | DataAvailable string
  | RecorderStopped int
  | InputChange string
  | PressEnter int
  | TextSettled int "ProcessResponse posted"
  | AudioSettled int "ProcessResponse posted"

fun fire :: "event \<Rightarrow> chat_state \<Rightarrow> chat_state" where
  "fire ClickMic s = (if isLoading s \<or> isProcessingAudio s then s else handleMicToggle s)"
| "fire MediaGranted s = mediaGranted s"
| "fire MediaDenied s = mediaDenied s"
| "fire (DataAvailable chunk) s = ondataavailable chunk s"
| "fire (RecorderStopped now) s = onstop now s"
| "fire (InputChange v) s =
     (if isLoading s \<or> isRecording s \<or> isProcessingAudio s then s else handleInputChange v s)"
| "fire (PressEnter now) s = (if isLoading s then s else handleSend now s)"
| "fire (TextSettled now outcome) s = processTextSettled now outcome s"
| "fire (AudioSettled now outcome) s = processAudioSettled now outcome s"

fun run :: "event list \<Rightarrow> chat_state \<Rightarrow> chat_state" where
  "run [] s = s"
| "run (e # es) s = run es (fire e s)"

subsection \<open>The first component: \<^verbatim>\<open>handleSendMessage\<close>\<close>

text \<open>
  \<open>handleSendMessage\<close> with the session manager \<open>a\<close> it reads and the outcome of its
  request. The boolean returned says whether it goes on to call
  \<^verbatim>\<open>refreshActivity\<close>.
\<close>

definition handleSendMessage ::
  "auth_state \<Rightarrow> int \<Rightarrow> chat_result fetched \<Rightarrow> chat_state \<Rightarrow> chat_state \<times> bool" where
  "handleSendMessage a now resp s =
     (if trim (inputText s) = [] \<or> isLoading s \<or> \<not> truthy (token a) \<or> elderlyData a = None
         \<or> isProcessingAudio s
      then (s, False)
      else
        (let userMessage = trim (inputText s);
             s1 = s\<lparr> inputText := [],
                     isLoading := True,
                     error := [],
                     audioError := [],
                     messages := messages s @ [\<lparr>role = User, content = userMessage, timestamp = now\<rparr>],
                     requests := requests s @ [PostChatElderly userMessage (sessionId s)] \<rparr>;
             caught = s1\<lparr>error := ''Failed to send message. Please try again.''\<rparr>;
             after = (case resp of
                        Fetch_rejects \<Rightarrow> (caught, False)
                      | Json_rejects \<Rightarrow> (caught, False)
                      | Body_null \<Rightarrow> (caught, False)
                      | Body r \<Rightarrow>
                          if success_c r \<and> truthy (response_c r)
                          then (s1\<lparr> messages := messages s1 @
                                      [\<lparr>role = Assistant, content = or_else (response_c r) [],
                                        timestamp = now\<rparr>],
                                    sessionId := (if \<not> truthy (sessionId s) \<and> truthy (sessionId_c r)
                                                  then sessionId_c r else sessionId s) \<rparr>,
                                truthy (token_c r))
                          else (s1\<lparr>error := or_else (message_c r) ''Failed to send message''\<rparr>, False))
         in ((fst after)\<lparr>isLoading := False\<rparr>, snd after)))"


subsection \<open>Comparing message lists\<close>

text \<open>
  The texts that the responses to audio calls in a run of events put in place of a
  placeholder: the transcript of each, or the fallback literal when it has none.
\<close>

fun replacementTexts :: "event list \<Rightarrow> string list" where
  "replacementTexts [] = []"
| "replacementTexts (AudioSettled now (Returns (Some r)) # es) =
     or_else (transcript r) voice_fallback # replacementTexts es"
| "replacementTexts (e # es) = replacementTexts es"

text \<open>
  \<open>keeps_earlier ts ms ms'\<close>: the list \<open>ms'\<close> has an entry for each entry of \<open>ms\<close>,
  in the same place, with the same role and timestamp, and with the same content
  unless the entry of \<open>ms\<close> was a user entry with the placeholder literal as its
  content, which may have become one of the texts \<open>ts\<close>.
\<close>

fun keeps_earlier :: "string list \<Rightarrow> Message list \<Rightarrow> Message list \<Rightarrow> bool" where
  "keeps_earlier ts [] ms' = True"
| "keeps_earlier ts (m # ms) [] = False"
| "keeps_earlier ts (m # ms) (m' # ms') =
     (role m' = role m \<and> timestamp m' = timestamp m \<and>
      (content m' = content m \<or>
       (role m = User \<and> content m = voice_placeholder \<and> content m' \<in> set ts)) \<and>
      keeps_earlier ts ms ms')"


section \<open>Concrete sessions and browser tables\<close>

text \<open>
  The browser's date functions at the instants used below: \<open>toISOString_at\<close> is
  \<^verbatim>\<open>toISOString\<close> and \<open>newDate_at\<close> is \<^verbatim>\<open>new Date(string)\<close>, each tabulated at
  those instants.
\<close>

definition toISOString_at :: "int \<Rightarrow> string" where
  "toISOString_at t =
     (if t = 1700000000000 then ''2023-11-14T22:13:20.000Z''
      else if t = 1700082200000 then ''2023-11-15T21:03:20.000Z''
      else if t = 1700083100000 then ''2023-11-15T21:18:20.000Z''
      else if t = 1700085560000 then ''2023-11-15T21:59:20.000Z''
      else [])"

definition newDate_at :: "string \<Rightarrow> Date" where
  "newDate_at s =
     (if s = ''2023-11-14T22:13:20.000Z'' then Date 1700000000000
      else if s = ''2023-11-15T21:03:20.000Z'' then Date 1700082200000
      else if s = ''2023-11-15T21:18:20.000Z'' then Date 1700083100000
      else if s = ''2023-11-15T21:59:20.000Z'' then Date 1700085560000
      else Invalid_Date)"

definition asha :: ElderlyData where
  "asha = \<lparr> elderly_userid = ''42'', preferred_name = ''Asha'', admin_id = ''7'',
            caregiver_assigned = ''3'' \<rparr>"

definition asha_json :: string where
  \<open>asha_json = ''{"elderly_userid":"42","preferred_name":"Asha","admin_id":"7","caregiver_assigned":"3"}''\<close>

definition stringify_at :: "ElderlyData \<Rightarrow> string" where
  "stringify_at d = (if d = asha then asha_json else [])"

definition parseData_at :: "string \<Rightarrow> ElderlyData option" where
  "parseData_at s = (if s = asha_json then Some asha else None)"

text \<open>
  Three tokens: their payload segments are the base64 of \<^verbatim>\<open>{"exp":4102444800}\<close>,
  of \<^verbatim>\<open>{}\<close> and of \<^verbatim>\<open>{"exp":"never"}\<close>. The browser functions are tabulated at
  the values that decoding and checking these tokens passes to them; \<^verbatim>\<open>"never"\<close>
  converts to \<^verbatim>\<open>NaN\<close>.
\<close>

definition future_token :: string where
  "future_token = ''eyJhbGciOiJIUzI1NiJ9.eyJleHAiOjQxMDI0NDQ4MDB9.c2ln''"

definition undated_token :: string where
  "undated_token = ''eyJhbGciOiJIUzI1NiJ9.e30.c2ln''"

definition never_token :: string where
  "never_token = ''eyJhbGciOiJIUzI1NiJ9.eyJleHAiOiJuZXZlciJ9.c2ln''"

definition future_payload :: json where
  "future_payload = JObject [(''exp'', JNumber (Finite 4102444800))]"

definition undated_payload :: json where
  "undated_payload = JObject []"

definition never_payload :: json where
  "never_payload = JObject [(''exp'', JString ''never'')]"

definition table_browser :: browser where
  \<open>table_browser =
     \<lparr> atob = (\<lambda>s. if s = ''eyJleHAiOjQxMDI0NDQ4MDB9'' then Some ''{"exp":4102444800}''
                     else if s = ''e30'' then Some ''{}''
                     else if s = ''eyJleHAiOiJuZXZlciJ9'' then Some ''{"exp":"never"}''
                     else None),
       decodeURIComponent =
         (\<lambda>s. if s = ''%7b%22%65%78%70%22%3a%34%31%30%32%34%34%34%38%30%30%7d''
               then Some ''{"exp":4102444800}''
               else if s = ''%7b%7d'' then Some ''{}''
               else if s = ''%7b%22%65%78%70%22%3a%22%6e%65%76%65%72%22%7d''
               then Some ''{"exp":"never"}''
               else None),
       JSON_parse = (\<lambda>s. if s = ''{"exp":4102444800}'' then Some future_payload
                           else if s = ''{}'' then Some undated_payload
                           else if s = ''{"exp":"never"}'' then Some never_payload
                           else None),
       ToNumber = (\<lambda>v. NaN) \<rparr>\<close>

text \<open>
  A session created at 22:13:20 on 14 November 2023 and last active 22 h 50 min
  later; it is looked at 23 h 5 min after its creation.
\<close>

definition idle_session :: auth_state where
  "idle_session =
     \<lparr> token = Some future_token,
       elderlyData = Some asha,
       lastActivity = Some (Date 1700082200000),
       tokenCreatedAt = Some (Date 1700000000000),
       logoutWarning = Some ''Logging-out in 1 minute due to inactivity'',
       localStorage =
         [''elderlyToken'' \<mapsto> future_token,
          ''elderlyData'' \<mapsto> asha_json,
          ''elderlyLastActivity'' \<mapsto> ''2023-11-15T21:03:20.000Z'',
          ''elderlyTokenCreatedAt'' \<mapsto> ''2023-11-14T22:13:20.000Z''] \<rparr>"

text \<open>
  The same session last active 23 h 46 min after its creation; it is looked at 24 h
  after its creation.
\<close>

definition late_session :: auth_state where
  "late_session =
     \<lparr> token = Some future_token,
       elderlyData = Some asha,
       lastActivity = Some (Date 1700085560000),
       tokenCreatedAt = Some (Date 1700000000000),
       logoutWarning = Some ''Logging-out in 1 minute'',
       localStorage =
         [''elderlyToken'' \<mapsto> future_token,
          ''elderlyData'' \<mapsto> asha_json,
          ''elderlyLastActivity'' \<mapsto> ''2023-11-15T21:59:20.000Z'',
          ''elderlyTokenCreatedAt'' \<mapsto> ''2023-11-14T22:13:20.000Z''] \<rparr>"

text \<open>The session right after \<open>login\<close> at the first instant.\<close>

definition fresh_session :: auth_state where
  "fresh_session =
     login toISOString_at stringify_at 1700000000000 future_token asha
       \<lparr> token = None, elderlyData = None, lastActivity = None, tokenCreatedAt = None,
         logoutWarning = None, localStorage = Map.empty \<rparr>"






text \<open>
  The login page on its face step, camera running, no failure counted yet, and five
  attempts that fail in the ways an attempt can.
\<close>

definition face_page :: page_state where
  "face_page =
     \<lparr> showWelcomeCard = True, step = Face, phoneNumber = [],
       elderlyDetails = Some \<lparr> userid = ''42'', preferred_name_opt = Some ''Asha'',
                               admin_id_opt = Some ''7'', caregiver_assigned_opt = Some ''3'',
                               phone_number = None \<rparr>,
       isCapturing = True, error_login = [], isLoading_login = False,
       faceVerificationFailures = 0, videoRef = True, canvasRef = True,
       streamRef = Some True,
       auth = logout idle_session,
       route = ''/'' \<rparr>"

definition face_rejected :: verify_result where
  "face_rejected = \<lparr> success_v = False, token_v = None, message_v = Some ''Face does not match'' \<rparr>"

definition five_failures :: "(bool \<times> verify_result fetched) list" where
  "five_failures =
     [(True, Body face_rejected), (True, Fetch_rejects), (True, Body face_rejected),
      (True, Json_rejects), (False, Body face_rejected)]"

text \<open>Responses of the two hooks, the first carrying a session id.\<close>

definition text_reply :: ProcessResponse where
  "text_reply = \<lparr> transcript = None, audio = None, language = Some ''en'',
                  response = Some ''Good morning, Asha!'', sessionId_body = Some ''session-1'' \<rparr>"

definition voice_reply :: ProcessResponse where
  "voice_reply = \<lparr> transcript = Some ''good morning'', audio = None, language = Some ''en'',
                   response = Some ''Good morning, Asha!'', sessionId_body = Some ''session-1'' \<rparr>"

text \<open>One recording from the first click on the microphone to the stop of the recorder.\<close>

definition one_recording :: "event list" where
  "one_recording = [ClickMic, MediaGranted, DataAvailable ''chunk'', ClickMic, RecorderStopped 1000]"


section \<open>Properties of the session manager\<close>

lemma num_ge_not_lt: "num_ge a k \<Longrightarrow> \<not> num_lt a k"
  by (simp add: num_ge_def num_lt_def split: option.splits)

lemma checkExpiration_inactivity_window:
  "num_ge (inactiveMinutes now la) 14 \<Longrightarrow> num_lt (inactiveMinutes now la) 15 \<Longrightarrow>
   checkExpiration now la tc s = s\<lparr>logoutWarning := Some ''Logging-out in 1 minute due to inactivity''\<rparr>"
  by (simp add: checkExpiration_def)

lemma checkExpiration_age_window:
  "num_ge (tokenAgeHours now tc) 23 \<Longrightarrow> num_lt (tokenAgeHours now tc) 24 \<Longrightarrow>
   logoutWarning (checkExpiration now la tc s) \<noteq> None \<and> token (checkExpiration now la tc s) = token s"
  by (simp add: checkExpiration_def)

lemma checkExpiration_inactive_outside_age_window:
  "num_ge (inactiveMinutes now la) 15 \<Longrightarrow>
   \<not> (num_ge (tokenAgeHours now tc) 23 \<and> num_lt (tokenAgeHours now tc) 24) \<Longrightarrow>
   checkExpiration now la tc s = logout s"
  using num_ge_not_lt [of "inactiveMinutes now la" 15]
  by (auto simp add: checkExpiration_def)

lemma checkExpiration_aged_outside_inactivity_window:
  "num_ge (tokenAgeHours now tc) 24 \<Longrightarrow>
   \<not> (num_ge (inactiveMinutes now la) 14 \<and> num_lt (inactiveMinutes now la) 15) \<Longrightarrow>
   checkExpiration now la tc s = logout s"
  using num_ge_not_lt [of "tokenAgeHours now tc" 24]
  by (auto simp add: checkExpiration_def)

lemma checkExpiration_inactive_inside_age_window:
  "num_ge (inactiveMinutes now la) 15 \<Longrightarrow>
   num_ge (tokenAgeHours now tc) 23 \<Longrightarrow> num_lt (tokenAgeHours now tc) 24 \<Longrightarrow>
   checkExpiration now la tc s = s\<lparr>logoutWarning := Some ''Logging-out in 1 minute''\<rparr>"
  using num_ge_not_lt [of "inactiveMinutes now la" 15]
  by (simp add: checkExpiration_def)

lemma expiryTick_checks:
  "truthy (token s) \<Longrightarrow> lastActivity s = Some la \<Longrightarrow> tokenCreatedAt s = Some tc \<Longrightarrow>
   expiryTick now s = checkExpiration now la tc s"
  by (simp add: expiryTick_def)

text \<open>
  C1 on the code. The session of \<open>idle_session\<close> has been inactive for exactly 15
  minutes when the check runs, 23 h 5 min after the token was created. The inactivity
  is not below 15 minutes, so the first branch does not apply; the token age lies
  between 23 and 24 hours, so the second branch sets the token-age warning and the
  branch that logs out after 15 minutes of inactivity is never reached: the session
  is not cleared.
\<close>

theorem inactive_15min_not_cleared_in_23h_window:
  "inactiveMinutes 1700083100000 (Date 1700082200000) = Some 15 \<and>
   tokenAgeHours 1700083100000 (Date 1700000000000) = Some (277 / 12) \<and>
   expiryTick 1700083100000 idle_session = idle_session\<lparr>logoutWarning := Some ''Logging-out in 1 minute''\<rparr> \<and>
   token (expiryTick 1700083100000 idle_session) = Some future_token \<and>
   expiryTick 1700083100000 idle_session \<noteq> logout idle_session"
  by (simp add: expiryTick_def checkExpiration_def inactiveMinutes_def tokenAgeHours_def
      num_div_def num_sub_def num_ge_def num_lt_def getTime_def truthy_def idle_session_def
      future_token_def logout_def)

text \<open>
  C2, as stated, at a concrete input. The token of \<open>late_session\<close> is exactly 24
  hours old when the check runs, and the session has been inactive for 14 minutes.
  The inactivity test comes first and sets the inactivity warning: the session is not
  cleared at this check.
\<close>

theorem aged_24h_not_cleared_in_14min_window:
  "tokenAgeHours 1700086400000 (Date 1700000000000) = Some 24 \<and>
   inactiveMinutes 1700086400000 (Date 1700085560000) = Some 14 \<and>
   expiryTick 1700086400000 late_session =
     late_session\<lparr>logoutWarning := Some ''Logging-out in 1 minute due to inactivity''\<rparr> \<and>
   token (expiryTick 1700086400000 late_session) = Some future_token \<and>
   expiryTick 1700086400000 late_session \<noteq> logout late_session"
  by (simp add: expiryTick_def checkExpiration_def inactiveMinutes_def tokenAgeHours_def
      num_div_def num_sub_def num_ge_def num_lt_def getTime_def truthy_def late_session_def
      future_token_def logout_def)

text \<open>
  C2, amended. At a check of a session that holds a token and both dates: if the
  token age is at least 23 and below 24 hours and the inactivity is below 15 minutes,
  the logout warning is set; if the token age is at least 24 hours the session is
  cleared, unless the inactivity is at least 14 and below 15 minutes, in which case
  the inactivity warning is set, the inactivity test coming first.
\<close>

theorem token_age_warning_and_logout:
  "truthy (token s) \<and> lastActivity s = Some la \<and> tokenCreatedAt s = Some tc \<longrightarrow>
   (num_ge (tokenAgeHours now tc) 23 \<and> num_lt (tokenAgeHours now tc) 24 \<and>
    \<not> num_ge (inactiveMinutes now la) 15 \<longrightarrow>
      expiryTick now s =
        s\<lparr>logoutWarning :=
            Some (if num_ge (inactiveMinutes now la) 14
                  then ''Logging-out in 1 minute due to inactivity''
                  else ''Logging-out in 1 minute'')\<rparr>) \<and>
   (num_ge (tokenAgeHours now tc) 24 \<and>
    \<not> (num_ge (inactiveMinutes now la) 14 \<and> num_lt (inactiveMinutes now la) 15) \<longrightarrow>
      expiryTick now s = logout s) \<and>
   (num_ge (tokenAgeHours now tc) 24 \<and>
    num_ge (inactiveMinutes now la) 14 \<and> num_lt (inactiveMinutes now la) 15 \<longrightarrow>
      expiryTick now s = s\<lparr>logoutWarning := Some ''Logging-out in 1 minute due to inactivity''\<rparr>)"
proof (intro impI conjI)
  assume held: "truthy (token s) \<and> lastActivity s = Some la \<and> tokenCreatedAt s = Some tc"
  then have tick: "expiryTick now s = checkExpiration now la tc s"
    by (simp add: expiryTick_checks)
  {
    assume "num_ge (tokenAgeHours now tc) 23 \<and> num_lt (tokenAgeHours now tc) 24 \<and>
      \<not> num_ge (inactiveMinutes now la) 15"
    then show "expiryTick now s =
        s\<lparr>logoutWarning :=
            Some (if num_ge (inactiveMinutes now la) 14
                  then ''Logging-out in 1 minute due to inactivity''
                  else ''Logging-out in 1 minute'')\<rparr>"
      unfolding tick
      by (cases "inactiveMinutes now la")
        (auto simp add: checkExpiration_def num_ge_def num_lt_def)
  next
    assume "num_ge (tokenAgeHours now tc) 24 \<and>
      \<not> (num_ge (inactiveMinutes now la) 14 \<and> num_lt (inactiveMinutes now la) 15)"
    then show "expiryTick now s = logout s"
      unfolding tick by (simp add: checkExpiration_aged_outside_inactivity_window)
  next
    assume "num_ge (tokenAgeHours now tc) 24 \<and>
      num_ge (inactiveMinutes now la) 14 \<and> num_lt (inactiveMinutes now la) 15"
    then show "expiryTick now s = s\<lparr>logoutWarning := Some ''Logging-out in 1 minute due to inactivity''\<rparr>"
      unfolding tick by (simp add: checkExpiration_inactivity_window)
  }
qed

theorem token_age_warning_and_logout_witness:
  "truthy (token late_session) \<and> lastActivity late_session = Some (Date 1700085560000) \<and>
   tokenCreatedAt late_session = Some (Date 1700000000000) \<and>
   tokenAgeHours 1700085800000 (Date 1700000000000) = Some (143 / 6) \<and>
   inactiveMinutes 1700085800000 (Date 1700085560000) = Some 4 \<and>
   expiryTick 1700085800000 late_session = late_session\<lparr>logoutWarning := Some ''Logging-out in 1 minute''\<rparr> \<and>
   tokenAgeHours 1700086400000 (Date 1700000000000) = Some 24 \<and>
   inactiveMinutes 1700086400000 (Date 1700085560000) = Some 14 \<and>
   expiryTick 1700086400000 late_session =
     late_session\<lparr>logoutWarning := Some ''Logging-out in 1 minute due to inactivity''\<rparr> \<and>
   tokenAgeHours 1700086460000 (Date 1700000000000) = Some (1441 / 60) \<and>
   inactiveMinutes 1700086460000 (Date 1700085560000) = Some 15 \<and>
   expiryTick 1700086460000 late_session = logout late_session"
proof -
  have held: "truthy (token late_session)" "lastActivity late_session = Some (Date 1700085560000)"
    "tokenCreatedAt late_session = Some (Date 1700000000000)"
    by (simp_all add: late_session_def truthy_def future_token_def)
  have times:
    "tokenAgeHours 1700085800000 (Date 1700000000000) = Some (143 / 6)"
    "inactiveMinutes 1700085800000 (Date 1700085560000) = Some 4"
    "tokenAgeHours 1700086400000 (Date 1700000000000) = Some 24"
    "inactiveMinutes 1700086400000 (Date 1700085560000) = Some 14"
    "tokenAgeHours 1700086460000 (Date 1700000000000) = Some (1441 / 60)"
    "inactiveMinutes 1700086460000 (Date 1700085560000) = Some 15"
    by (simp_all add: tokenAgeHours_def inactiveMinutes_def num_div_def num_sub_def getTime_def)
  show ?thesis
    using token_age_warning_and_logout [of late_session "Date 1700085560000" "Date 1700000000000" 1700085800000]
      token_age_warning_and_logout [of late_session "Date 1700085560000" "Date 1700000000000" 1700086400000]
      token_age_warning_and_logout [of late_session "Date 1700085560000" "Date 1700000000000" 1700086460000]
      held
    by (simp add: times num_ge_def num_lt_def)
qed

lemma logout_fields:
  "token (logout s) = None" "elderlyData (logout s) = None" "lastActivity (logout s) = None"
  "tokenCreatedAt (logout s) = None" "logoutWarning (logout s) = None"
  by (simp_all add: logout_def)

lemma logout_storage:
  "localStorage (logout s) k =
     (if k = ''elderlyData'' \<or> k = ''elderlyLastActivity'' \<or> k = ''elderlyTokenCreatedAt''
      then None else localStorage s k)"
  by (simp add: logout_def removeItem_def)

lemma initialState_after_logout:
  "initialState newDate parseData (localStorage (logout s)) =
     \<lparr> token = localStorage s ''elderlyToken'', elderlyData = None, lastActivity = None,
       tokenCreatedAt = None, logoutWarning = None, localStorage = localStorage (logout s) \<rparr>"
  by (simp add: initialState_def logout_storage)

lemma decodeJWT_future_token: "decodeJWT table_browser future_token = future_payload"
  by code_simp

lemma decodeJWT_undated_token: "decodeJWT table_browser undated_token = undated_payload"
  by code_simp

lemma decodeJWT_never_token: "decodeJWT table_browser never_token = never_payload"
  by code_simp

lemma fresh_session_token: "localStorage fresh_session ''elderlyToken'' = Some future_token"
  by (simp add: fresh_session_def login_def setItem_def)

text \<open>
  C4 on the code. A visitor logs in and presses Logout ten minutes later; the page is
  then loaded again. \<open>logout\<close> has left the raw token in the storage, so the reload
  finds it; its \<^verbatim>\<open>exp\<close> lies in the future, so it is not detected as expired, the
  visitor counts as authenticated and the login page sends them on to the chat.
\<close>

theorem logout_reload_token_not_expired:
  "token (logout fresh_session) = None \<and>
   token (initialState newDate_at parseData_at (localStorage (logout fresh_session))) = Some future_token \<and>
   \<not> isTokenExpired table_browser 1700000600000 future_token \<and>
   isAuthenticated (initialState newDate_at parseData_at (localStorage (logout fresh_session))) \<and>
   redirectsToChat table_browser 1700000600000
     (initialState newDate_at parseData_at (localStorage (logout fresh_session)))"
  by (simp add: initialState_after_logout fresh_session_token isTokenExpired_def
      decodeJWT_future_token redirectsToChat_def isAuthenticated_def truthy_def logout_fields)
    (simp add: future_payload_def future_token_def)






section \<open>Properties of the token check\<close>

lemma split_no_separator: "c \<notin> set s \<Longrightarrow> split c s = [s]"
  by (induction s) auto

lemma decodeJWT_no_dot: "CHR ''.'' \<notin> set tok \<Longrightarrow> decodeJWT B tok = JNull"
  by (simp add: decodeJWT_def split_no_separator)

lemma exp_of_falsy: "\<not> truthy_json v \<Longrightarrow> exp_of v = None"
  by (cases v) simp_all

lemma isTokenExpired_iff:
  "isTokenExpired B date_now tok =
     (case exp_of (decodeJWT B tok) of
        None \<Rightarrow> True
      | Some e \<Rightarrow>
          \<not> truthy_json e \<or>
          double_less (toNumber B e) (of_int \<lfloor>(of_int date_now :: rat) / 1000\<rfloor>))"
  using exp_of_falsy [of "decodeJWT B tok"]
  by (cases "decodeJWT B tok") (auto simp add: isTokenExpired_def Let_def split: option.splits)

text \<open>
  C10, as stated, at a concrete input. The payload of \<open>never_token\<close> is
  \<^verbatim>\<open>{"exp":"never"}\<close>. The string is truthy and converts to \<^verbatim>\<open>NaN\<close>, with which
  every comparison is false, so the check answers \<^verbatim>\<open>false\<close> although the decoded
  \<^verbatim>\<open>exp\<close> is no time at all, let alone one that is not earlier than the current time.
\<close>

theorem isTokenExpired_false_without_time:
  "decodeJWT table_browser never_token = JObject [(''exp'', JString ''never'')] \<and>
   toNumber table_browser (JString ''never'') = NaN \<and>
   \<not> isTokenExpired table_browser 1700000600000 never_token"
proof -
  have nan: "ToNumber table_browser (JString ''never'') = NaN"
    by (simp add: table_browser_def)
  show ?thesis
    by (simp add: isTokenExpired_iff decodeJWT_never_token never_payload_def nan)
qed

text \<open>
  C10, amended. A token that cannot be decoded is reported as expired, and so is one
  whose payload has no \<^verbatim>\<open>exp\<close>; a token without a dot is one that cannot be decoded,
  whatever the browser functions do. The check answers \<^verbatim>\<open>false\<close> only for a token
  that decodes to a payload with a truthy \<^verbatim>\<open>exp\<close> for which the comparison
  \<^verbatim>\<open>exp < now\<close> of JavaScript is false. For an \<^verbatim>\<open>exp\<close> that is a number, as the
  interface declares it, that is: the check answers \<^verbatim>\<open>false\<close> exactly when \<^verbatim>\<open>exp\<close>
  is not \<open>0\<close> and not earlier than the current time in seconds; an \<^verbatim>\<open>exp\<close> beyond
  the range of doubles counts as later than every time when positive and as earlier
  when negative.
\<close>

theorem isTokenExpired_fail_safe_for_numbers:
  "(decodeJWT B tok = JNull \<longrightarrow> isTokenExpired B date_now tok) \<and>
   (CHR ''.'' \<notin> set tok \<longrightarrow> isTokenExpired B date_now tok) \<and>
   (exp_of (decodeJWT B tok) = None \<longrightarrow> isTokenExpired B date_now tok) \<and>
   (\<not> isTokenExpired B date_now tok \<longrightarrow>
      (\<exists>e. exp_of (decodeJWT B tok) = Some e \<and> truthy_json e \<and>
         \<not> double_less (toNumber B e) (of_int \<lfloor>(of_int date_now :: rat) / 1000\<rfloor>))) \<and>
   (\<forall>n. exp_of (decodeJWT B tok) = Some (JNumber (Finite n)) \<longrightarrow>
      (\<not> isTokenExpired B date_now tok) =
        (n \<noteq> 0 \<and> \<not> n < of_int \<lfloor>(of_int date_now :: rat) / 1000\<rfloor>)) \<and>
   (exp_of (decodeJWT B tok) = Some (JNumber Pos_Infinity) \<longrightarrow> \<not> isTokenExpired B date_now tok) \<and>
   (exp_of (decodeJWT B tok) = Some (JNumber Neg_Infinity) \<longrightarrow> isTokenExpired B date_now tok)"
  using decodeJWT_no_dot [of tok B]
  by (auto simp add: isTokenExpired_iff split: option.splits)

theorem isTokenExpired_fail_safe_for_numbers_witness:
  "CHR ''.'' \<notin> set ''not-a-jwt'' \<and>
   decodeJWT table_browser ''not-a-jwt'' = JNull \<and>
   isTokenExpired table_browser 1700000600000 ''not-a-jwt'' \<and>
   exp_of (decodeJWT table_browser undated_token) = None \<and>
   isTokenExpired table_browser 1700000600000 undated_token \<and>
   exp_of (decodeJWT table_browser future_token) = Some (JNumber (Finite 4102444800)) \<and>
   \<not> isTokenExpired table_browser 1700000600000 future_token \<and>
   isTokenExpired table_browser 4102444801000 future_token \<and>
   (\<exists>e. exp_of (decodeJWT table_browser never_token) = Some e \<and> truthy_json e \<and>
      \<not> double_less (toNumber table_browser e) (of_int \<lfloor>(of_int (1700000600000 :: int) :: rat) / 1000\<rfloor>))"
proof -
  have no_dot: "CHR ''.'' \<notin> set ''not-a-jwt''"
    by simp
  have undated: "exp_of (decodeJWT table_browser undated_token) = None"
    by (simp add: decodeJWT_undated_token undated_payload_def)
  have future: "exp_of (decodeJWT table_browser future_token) = Some (JNumber (Finite 4102444800))"
    by (simp add: decodeJWT_future_token future_payload_def)
  have nan: "ToNumber table_browser (JString ''never'') = NaN"
    by (simp add: table_browser_def)
  have never: "\<not> isTokenExpired table_browser 1700000600000 never_token"
    by (simp add: isTokenExpired_iff decodeJWT_never_token never_payload_def nan)
  show ?thesis
    using isTokenExpired_fail_safe_for_numbers [of table_browser "''not-a-jwt''" 1700000600000]
      isTokenExpired_fail_safe_for_numbers [of table_browser undated_token 1700000600000]
      isTokenExpired_fail_safe_for_numbers [of table_browser future_token 1700000600000]
      isTokenExpired_fail_safe_for_numbers [of table_browser future_token 4102444801000]
      isTokenExpired_fail_safe_for_numbers [of table_browser never_token 1700000600000]
      decodeJWT_no_dot [of "''not-a-jwt''" table_browser] no_dot undated future never
    by simp
qed

section \<open>Properties of the face step\<close>

lemma captureAndVerify_failure:
  assumes "videoRef p" "canvasRef p" "elderlyDetails p \<noteq> None" "verificationFails (has2d, resp)"
  shows "captureAndVerify toISOString stringify now has2d resp p =
           (if \<not> has2d \<or> (\<forall>r. resp \<noteq> Body r)
            then p\<lparr> isLoading_login := False,
                    error_login := ''Failed to verify face. Please try again.'',
                    faceVerificationFailures := faceVerificationFailures p + 1 \<rparr>
            else p\<lparr> isLoading_login := False,
                    error_login := (case resp of Body r \<Rightarrow> or_else (message_v r) ''Face verification failed''
                                    | _ \<Rightarrow> []),
                    faceVerificationFailures := faceVerificationFailures p + 1 \<rparr>)"
  using assms
  by (cases resp)
    (auto simp add: captureAndVerify_def verifyCaught_def Let_def split: option.splits)

lemma captureAndVerify_failure_counts:
  assumes "videoRef p" "canvasRef p" "elderlyDetails p \<noteq> None" "verificationFails (has2d, resp)"
  shows "faceVerificationFailures (captureAndVerify toISOString stringify now has2d resp p) =
           faceVerificationFailures p + 1"
    and "videoRef (captureAndVerify toISOString stringify now has2d resp p)"
    and "canvasRef (captureAndVerify toISOString stringify now has2d resp p)"
    and "elderlyDetails (captureAndVerify toISOString stringify now has2d resp p) = elderlyDetails p"
  using assms by (simp_all add: captureAndVerify_failure)

lemma verifyEach_failures_count:
  "videoRef p \<Longrightarrow> canvasRef p \<Longrightarrow> elderlyDetails p \<noteq> None \<Longrightarrow> list_all verificationFails rs \<Longrightarrow>
   faceVerificationFailures (verifyEach toISOString stringify now rs p) =
     faceVerificationFailures p + length rs"
proof (induction rs arbitrary: p)
  case Nil
  then show ?case by simp
next
  case (Cons x rs)
  obtain has2d resp where x: "x = (has2d, resp)"
    by (cases x)
  let ?q = "captureAndVerify toISOString stringify now has2d resp p"
  from Cons.prems x have fails: "verificationFails (has2d, resp)" and rest: "list_all verificationFails rs"
    by simp_all
  note step = captureAndVerify_failure_counts [OF Cons.prems(1) Cons.prems(2) Cons.prems(3) fails,
      of toISOString stringify now]
  have "faceVerificationFailures (verifyEach toISOString stringify now rs ?q) =
          faceVerificationFailures ?q + length rs"
    using step Cons.prems(3) rest by (intro Cons.IH) simp_all
  then show ?case
    using step(1) x by simp
qed

lemma handleEnterNumber_effect:
  "localStorage (auth (handleEnterNumber p)) ''elderlyToken'' = None"
  "step (handleEnterNumber p) = Phone"
  "faceVerificationFailures (handleEnterNumber p) = 0"
  "elderlyDetails (handleEnterNumber p) = None"
  "isCapturing (handleEnterNumber p) = False"
  by (simp_all add: handleEnterNumber_def removeItem_def)

text \<open>
  C9. On the face step, with the video and the canvas mounted and the details of the
  visitor loaded, an attempt that fails, by a rejected verification or by an error of
  the request, adds one to the failure counter, and a run of failing attempts adds
  their number. The left button of the step is the Back button while the counter is
  below 5; from 5 on it is labelled Enter Number and runs \<open>handleEnterNumber\<close>,
  which removes the stored token, resets the counter and goes to the phone step.
\<close>

theorem face_failures_lead_to_enter_number:
  "(videoRef p \<and> canvasRef p \<and> elderlyDetails p \<noteq> None \<and> verificationFails (has2d, resp) \<longrightarrow>
      faceVerificationFailures (captureAndVerify toISOString stringify now has2d resp p) =
        faceVerificationFailures p + 1) \<and>
   (videoRef p \<and> canvasRef p \<and> elderlyDetails p \<noteq> None \<and> list_all verificationFails rs \<longrightarrow>
      faceVerificationFailures (verifyEach toISOString stringify now rs p) =
        faceVerificationFailures p + length rs) \<and>
   (5 \<le> faceVerificationFailures q \<longrightarrow>
      backButtonLabel q = ''Enter Number'' \<and> backButtonClick q = handleEnterNumber q) \<and>
   (faceVerificationFailures q < 5 \<longrightarrow>
      backButtonLabel q = ''Back'' \<and> backButtonClick q = handleBack q) \<and>
   localStorage (auth (handleEnterNumber q)) ''elderlyToken'' = None \<and>
   step (handleEnterNumber q) = Phone \<and>
   faceVerificationFailures (handleEnterNumber q) = 0"
  using captureAndVerify_failure_counts(1) [of p has2d resp toISOString stringify now]
    verifyEach_failures_count [of p rs toISOString stringify now]
  by (simp add: backButtonLabel_def backButtonClick_def handleEnterNumber_effect)

theorem face_failures_lead_to_enter_number_witness:
  "videoRef face_page \<and> canvasRef face_page \<and> elderlyDetails face_page \<noteq> None \<and>
   verificationFails (True, Body face_rejected) \<and> list_all verificationFails five_failures \<and>
   faceVerificationFailures
     (captureAndVerify toISOString_at stringify_at 1700083100000 True (Body face_rejected) face_page) = 1 \<and>
   faceVerificationFailures (verifyEach toISOString_at stringify_at 1700083100000 five_failures face_page) = 5 \<and>
   backButtonLabel (verifyEach toISOString_at stringify_at 1700083100000 five_failures face_page) =
     ''Enter Number'' \<and>
   step (backButtonClick (verifyEach toISOString_at stringify_at 1700083100000 five_failures face_page)) =
     Phone \<and>
   localStorage
     (auth (backButtonClick (verifyEach toISOString_at stringify_at 1700083100000 five_failures face_page)))
     ''elderlyToken'' = None \<and>
   localStorage (auth face_page) ''elderlyToken'' = Some future_token \<and>
   faceVerificationFailures face_page < 5 \<and> backButtonLabel face_page = ''Back''"
proof -
  let ?q = "verifyEach toISOString_at stringify_at 1700083100000 five_failures face_page"
  have page: "videoRef face_page" "canvasRef face_page" "elderlyDetails face_page \<noteq> None"
    "faceVerificationFailures face_page = 0"
    "localStorage (auth face_page) ''elderlyToken'' = Some future_token"
    by (simp_all add: face_page_def logout_def removeItem_def idle_session_def)
  have fails: "verificationFails (True, Body face_rejected)" "list_all verificationFails five_failures"
    "length five_failures = 5"
    by (simp_all add: five_failures_def face_rejected_def truthy_def)
  show ?thesis
    using face_failures_lead_to_enter_number [of face_page True "Body face_rejected" toISOString_at
        stringify_at 1700083100000 five_failures ?q]
      face_failures_lead_to_enter_number [of face_page True "Body face_rejected" toISOString_at
        stringify_at 1700083100000 five_failures face_page]
      page fails
    by simp
qed


section \<open>Properties of the chat page\<close>

lemma keeps_earlier_refl: "keeps_earlier ts ms ms"
  by (induction ms) auto

lemma keeps_earlier_append: "keeps_earlier ts ms ms' \<Longrightarrow> keeps_earlier ts ms (ms' @ new)"
  by (induction ts ms ms' rule: keeps_earlier.induct) auto

lemma keeps_earlier_mono:
  "keeps_earlier ts ms ms' \<Longrightarrow> set ts \<subseteq> set ts' \<Longrightarrow> keeps_earlier ts' ms ms'"
  by (induction ts ms ms' rule: keeps_earlier.induct) auto

lemma keeps_earlier_trans:
  "keeps_earlier ts a b \<Longrightarrow> keeps_earlier ts' b c \<Longrightarrow> keeps_earlier (ts @ ts') a c"
proof (induction ts a b arbitrary: c rule: keeps_earlier.induct)
  case (1 ts ms')
  then show ?case by simp
next
  case (2 ts m ms)
  then show ?case by simp
next
  case (3 ts m ms m' ms')
  then obtain m'' ms'' where c: "c = m'' # ms''"
    by (cases c) auto
  with 3 show ?case by auto
qed

lemma keeps_earlier_update:
  "i < length ms \<Longrightarrow> role (ms ! i) = User \<Longrightarrow> content (ms ! i) = voice_placeholder \<Longrightarrow>
   keeps_earlier [c] ms (ms[i := (ms ! i)\<lparr>content := c\<rparr>])"
proof (induction ms arbitrary: i)
  case Nil
  then show ?case by simp
next
  case (Cons m ms)
  then show ?case
    by (cases i) (auto simp add: keeps_earlier_refl)
qed

lemma keeps_earlier_replacePlaceholder:
  "n \<le> length ms \<Longrightarrow> keeps_earlier [c] ms (replacePlaceholder n c ms)"
  by (induction n) (auto simp add: keeps_earlier_refl keeps_earlier_update)

lemma keeps_earlier_index:
  "keeps_earlier ts ms ms' =
     (length ms \<le> length ms' \<and>
      (\<forall>i < length ms.
         role (ms' ! i) = role (ms ! i) \<and> timestamp (ms' ! i) = timestamp (ms ! i) \<and>
         (content (ms' ! i) = content (ms ! i) \<or>
          (role (ms ! i) = User \<and> content (ms ! i) = voice_placeholder \<and>
           content (ms' ! i) \<in> set ts))))"
proof (induction ts ms ms' rule: keeps_earlier.induct)
  case (1 ts ms')
  then show ?case by simp
next
  case (2 ts m ms)
  then show ?case by simp
next
  case (3 ts m ms m' ms')
  show ?case
    unfolding keeps_earlier.simps 3
    by (auto simp add: nth_Cons split: nat.splits)
qed

lemma length_replacePlaceholder: "length (replacePlaceholder n c ms) = length ms"
  by (induction n) simp_all

text \<open>
  What the loop does to each entry: it rewrites the entry at the largest index below
  \<open>n\<close> that holds a user entry with the placeholder literal, and no other.
\<close>

lemma replacePlaceholder_nth:
  "n \<le> length ms \<Longrightarrow> i < length ms \<Longrightarrow>
   replacePlaceholder n c ms ! i =
     (if i < n \<and> role (ms ! i) = User \<and> content (ms ! i) = voice_placeholder \<and>
         (\<forall>j. i < j \<and> j < n \<longrightarrow> \<not> (role (ms ! j) = User \<and> content (ms ! j) = voice_placeholder))
      then (ms ! i)\<lparr>content := c\<rparr> else ms ! i)"
proof (induction n)
  case 0
  then show ?case by simp
next
  case (Suc n)
  show ?case
  proof (cases "role (ms ! n) = User \<and> content (ms ! n) = voice_placeholder")
    case True
    show ?thesis
    proof (cases "i = n")
      case True
      with \<open>role (ms ! n) = User \<and> content (ms ! n) = voice_placeholder\<close> Suc.prems
      show ?thesis by (auto simp add: less_Suc_eq)
    next
      case False
      have neg: "\<not> (i < Suc n \<and> role (ms ! i) = User \<and> content (ms ! i) = voice_placeholder \<and>
          (\<forall>j. i < j \<and> j < Suc n \<longrightarrow> \<not> (role (ms ! j) = User \<and> content (ms ! j) = voice_placeholder)))"
      proof
        assume h: "i < Suc n \<and> role (ms ! i) = User \<and> content (ms ! i) = voice_placeholder \<and>
          (\<forall>j. i < j \<and> j < Suc n \<longrightarrow> \<not> (role (ms ! j) = User \<and> content (ms ! j) = voice_placeholder))"
        with False have "i < n" by simp
        with h True show False by auto
      qed
      have "replacePlaceholder (Suc n) c ms ! i = ms ! i"
        using True False by simp
      then show ?thesis
        unfolding if_not_P [OF neg] .
    qed
  next
    case False
    have same: "(i < Suc n \<and> role (ms ! i) = User \<and> content (ms ! i) = voice_placeholder \<and>
          (\<forall>j. i < j \<and> j < Suc n \<longrightarrow> \<not> (role (ms ! j) = User \<and> content (ms ! j) = voice_placeholder))) =
        (i < n \<and> role (ms ! i) = User \<and> content (ms ! i) = voice_placeholder \<and>
          (\<forall>j. i < j \<and> j < n \<longrightarrow> \<not> (role (ms ! j) = User \<and> content (ms ! j) = voice_placeholder)))"
      using False by (auto simp add: less_Suc_eq)
    from Suc.prems have le: "n \<le> length ms" by simp
    have "replacePlaceholder (Suc n) c ms ! i = replacePlaceholder n c ms ! i"
      using False by auto
    also note Suc.IH [OF le Suc.prems(2)]
    finally show ?thesis
      by (simp only: same)
  qed
qed

lemma audioResponseEffect_messages:
  "\<exists>new. messages (audioResponseEffect now r s) =
     replacePlaceholder (length (messages s)) (or_else (transcript r) voice_fallback) (messages s) @ new"
  by (simp add: audioResponseEffect_def Let_def)

lemma fire_audio_response_messages:
  "\<exists>new. messages (fire (AudioSettled now (Returns (Some r))) s) =
     replacePlaceholder (length (messages s)) (or_else (transcript r) voice_fallback) (messages s) @ new"
  using audioResponseEffect_messages
    [of now r "s\<lparr>processAudioResponse := Some r, processAudioResponseLoading := False\<rparr>"]
  by (simp add: processAudioSettled_def)

lemma fire_audio_response_nth:
  assumes "i < length (messages s)"
  shows "messages (fire (AudioSettled now (Returns (Some r))) s) ! i =
     (if role (messages s ! i) = User \<and> content (messages s ! i) = voice_placeholder \<and>
         (\<forall>j. i < j \<and> j < length (messages s) \<longrightarrow>
            \<not> (role (messages s ! j) = User \<and> content (messages s ! j) = voice_placeholder))
      then (messages s ! i)\<lparr>content := or_else (transcript r) voice_fallback\<rparr>
      else messages s ! i)"
proof -
  obtain new where new: "messages (fire (AudioSettled now (Returns (Some r))) s) =
      replacePlaceholder (length (messages s)) (or_else (transcript r) voice_fallback) (messages s) @ new"
    using fire_audio_response_messages by blast
  have "(replacePlaceholder (length (messages s)) (or_else (transcript r) voice_fallback) (messages s) @ new) ! i =
      replacePlaceholder (length (messages s)) (or_else (transcript r) voice_fallback) (messages s) ! i"
    using assms by (simp add: nth_append length_replacePlaceholder)
  then have "messages (fire (AudioSettled now (Returns (Some r))) s) ! i =
      replacePlaceholder (length (messages s)) (or_else (transcript r) voice_fallback) (messages s) ! i"
    unfolding new .
  then show ?thesis
    using replacePlaceholder_nth [of "length (messages s)" "messages s" i
        "or_else (transcript r) voice_fallback"] assms
    by simp
qed

lemma fire_appends:
  "(\<forall>now r. e \<noteq> AudioSettled now (Returns (Some r))) \<Longrightarrow> \<exists>new. messages (fire e s) = messages s @ new"
proof (cases e)
  case (TextSettled now outcome)
  then show ?thesis
    by (cases outcome) (auto simp add: processTextSettled_def textResponseEffect_def Let_def split: option.splits)
next
  case (AudioSettled now outcome)
  assume "\<forall>now r. e \<noteq> AudioSettled now (Returns (Some r))"
  with AudioSettled show ?thesis
    by (cases outcome) (auto simp add: processAudioSettled_def split: option.splits)
qed (auto simp add: handleMicToggle_def startRecording_def stopRecording_def mediaGranted_def
    mediaDenied_def ondataavailable_def onstop_def sendAudioForTranscription_def
    handleInputChange_def handleSend_def Let_def split: option.splits list.splits)

lemma fire_keeps_earlier: "keeps_earlier (replacementTexts [e]) (messages s) (messages (fire e s))"
proof (cases "\<forall>now r. e \<noteq> AudioSettled now (Returns (Some r))")
  case True
  then obtain new where "messages (fire e s) = messages s @ new"
    using fire_appends by blast
  then show ?thesis
    by (simp add: keeps_earlier_append keeps_earlier_refl)
next
  case False
  then obtain now r where e: "e = AudioSettled now (Returns (Some r))"
    by blast
  obtain new where "messages (fire (AudioSettled now (Returns (Some r))) s) =
      replacePlaceholder (length (messages s)) (or_else (transcript r) voice_fallback) (messages s) @ new"
    using fire_audio_response_messages by blast
  then show ?thesis
    unfolding e by (simp add: keeps_earlier_append keeps_earlier_replacePlaceholder)
qed

lemma replacementTexts_Cons: "replacementTexts (e # es) = replacementTexts [e] @ replacementTexts es"
proof (cases e)
  case (AudioSettled now outcome)
  show ?thesis
  proof (cases outcome)
    case Throws
    with AudioSettled show ?thesis by simp
  next
    case (Returns x)
    with AudioSettled show ?thesis by (cases x) simp_all
  qed
qed simp_all

lemma run_keeps_earlier: "keeps_earlier (replacementTexts es) (messages s) (messages (run es s))"
proof (induction es arbitrary: s)
  case Nil
  then show ?case by (simp add: keeps_earlier_refl)
next
  case (Cons e es)
  have "keeps_earlier (replacementTexts [e] @ replacementTexts es) (messages s)
      (messages (run es (fire e s)))"
    using keeps_earlier_trans [OF fire_keeps_earlier Cons.IH] .
  then show ?case
    using replacementTexts_Cons [of e es] by simp
qed

lemma handleSendMessage_appends:
  "\<exists>new. messages (fst (handleSendMessage a now resp s)) = messages s @ new"
  by (cases resp) (auto simp add: handleSendMessage_def Let_def)

text \<open>
  C6, as stated, at a concrete input. After one recording the list holds the voice
  placeholder of the user; the response to the audio call overwrites the content of
  that entry with the transcript, so the new list does not extend the old one.
\<close>

theorem audio_response_rewrites_earlier_message:
  "messages (run one_recording initialChat) =
     [\<lparr>role = User, content = voice_placeholder, timestamp = 1000\<rparr>] \<and>
   messages (fire (AudioSettled 2000 (Returns (Some voice_reply))) (run one_recording initialChat)) ! 0 =
     \<lparr>role = User, content = ''good morning'', timestamp = 1000\<rparr> \<and>
   content (messages (fire (AudioSettled 2000 (Returns (Some voice_reply)))
                        (run one_recording initialChat)) ! 0)
     \<noteq> content (messages (run one_recording initialChat) ! 0)"
  by (simp add: one_recording_def initialChat_def voice_reply_def handleMicToggle_def
      startRecording_def stopRecording_def mediaGranted_def ondataavailable_def onstop_def
      sendAudioForTranscription_def processAudioSettled_def audioResponseEffect_def
      or_else_def truthy_def voice_placeholder_def voice_fallback_def Let_def)

text \<open>
  C6, amended. Every event other than a response to an audio call only appends entries
  at the end of the message list, and so does \<open>handleSendMessage\<close> of the first
  component. A response to an audio call removes no entry and leaves every entry as
  it was but one: the last user entry whose content is the placeholder literal,
  whether the recorder put it there or the user typed it, gets the transcript as its
  content, or the fallback literal when the response has no transcript, and keeps its
  role and timestamp. Over any run of events no entry is removed and every entry keeps
  its place, its role and its timestamp; its content changes only if it was a user
  entry with the placeholder literal, and then into the text that one of the audio
  responses of the run put in its place.
\<close>

theorem messages_kept_except_last_placeholder:
  "((\<forall>now r. e \<noteq> AudioSettled now (Returns (Some r))) \<longrightarrow>
      (\<exists>new. messages (fire e s) = messages s @ new)) \<and>
   (\<exists>new. messages (fst (handleSendMessage a now resp s)) = messages s @ new) \<and>
   length (messages s) \<le> length (messages (fire (AudioSettled now (Returns (Some r))) s)) \<and>
   (\<forall>i < length (messages s).
      messages (fire (AudioSettled now (Returns (Some r))) s) ! i =
        (if role (messages s ! i) = User \<and> content (messages s ! i) = voice_placeholder \<and>
            (\<forall>j. i < j \<and> j < length (messages s) \<longrightarrow>
               \<not> (role (messages s ! j) = User \<and> content (messages s ! j) = voice_placeholder))
         then (messages s ! i)\<lparr>content := or_else (transcript r) voice_fallback\<rparr>
         else messages s ! i)) \<and>
   length (messages s) \<le> length (messages (run es s)) \<and>
   (\<forall>i < length (messages s).
      role (messages (run es s) ! i) = role (messages s ! i) \<and>
      timestamp (messages (run es s) ! i) = timestamp (messages s ! i) \<and>
      (content (messages (run es s) ! i) = content (messages s ! i) \<or>
       (role (messages s ! i) = User \<and> content (messages s ! i) = voice_placeholder \<and>
        content (messages (run es s) ! i) \<in> set (replacementTexts es))))"
proof -
  have len: "length (messages s) \<le> length (messages (fire (AudioSettled now (Returns (Some r))) s))"
    using fire_keeps_earlier [of "AudioSettled now (Returns (Some r))" s]
    unfolding keeps_earlier_index by blast
  show ?thesis
    using fire_appends [of e s] handleSendMessage_appends [of a now resp s] len
      fire_audio_response_nth [of _ s now r] run_keeps_earlier [of es s]
    unfolding keeps_earlier_index by blast
qed

theorem messages_kept_except_last_placeholder_witness:
  "(\<exists>new. messages (fire (PressEnter 3000) ((run one_recording initialChat)\<lparr>inputText := ''hello''\<rparr>)) =
      messages ((run one_recording initialChat)\<lparr>inputText := ''hello''\<rparr>) @ new) \<and>
   (0::nat) < length (messages (run one_recording initialChat)) \<and>
   role (messages (run one_recording initialChat) ! 0) = User \<and>
   content (messages (run one_recording initialChat) ! 0) = voice_placeholder \<and>
   messages (fire (AudioSettled 2000 (Returns (Some voice_reply))) (run one_recording initialChat)) ! 0 =
     \<lparr>role = User, content = ''good morning'', timestamp = 1000\<rparr> \<and>
   replacementTexts [AudioSettled 2000 (Returns (Some voice_reply))] = [''good morning''] \<and>
   length (messages (run one_recording initialChat)) \<le>
     length (messages (run [AudioSettled 2000 (Returns (Some voice_reply))] (run one_recording initialChat))) \<and>
   role (messages (run [AudioSettled 2000 (Returns (Some voice_reply))] (run one_recording initialChat)) ! 0) =
     User \<and>
   timestamp (messages (run [AudioSettled 2000 (Returns (Some voice_reply))] (run one_recording initialChat)) ! 0) =
     1000 \<and>
   content (messages (run [AudioSettled 2000 (Returns (Some voice_reply))] (run one_recording initialChat)) ! 0) =
     ''good morning''"
proof -
  let ?s = "run one_recording initialChat"
  have before: "messages ?s = [\<lparr>role = User, content = voice_placeholder, timestamp = 1000\<rparr>]"
    by (simp add: one_recording_def initialChat_def handleMicToggle_def startRecording_def
        stopRecording_def mediaGranted_def ondataavailable_def onstop_def
        sendAudioForTranscription_def Let_def)
  have transcribed: "or_else (transcript voice_reply) voice_fallback = ''good morning''"
    by (simp add: voice_reply_def or_else_def)
  have differs: "''good morning'' \<noteq> voice_placeholder"
    by (simp add: voice_placeholder_def)
  have other: "\<forall>now r. PressEnter 3000 \<noteq> AudioSettled now (Returns (Some r))"
    by simp
  show ?thesis
    using messages_kept_except_last_placeholder [of "PressEnter 3000" "?s\<lparr>inputText := ''hello''\<rparr>"
        idle_session 2000 Fetch_rejects voice_reply "[AudioSettled 2000 (Returns (Some voice_reply))]"]
      messages_kept_except_last_placeholder [of "PressEnter 3000" ?s
        idle_session 2000 Fetch_rejects voice_reply "[AudioSettled 2000 (Returns (Some voice_reply))]"]
      before transcribed differs other
    by simp
qed

lemma fire_keeps_sessionId: "sessionId (fire e s) = sessionId s"
proof (cases e)
  case (TextSettled now outcome)
  then show ?thesis
    by (cases outcome) (auto simp add: processTextSettled_def textResponseEffect_def Let_def split: option.splits)
next
  case (AudioSettled now outcome)
  then show ?thesis
    by (cases outcome) (auto simp add: processAudioSettled_def audioResponseEffect_def Let_def split: option.splits)
qed (auto simp add: handleMicToggle_def startRecording_def stopRecording_def mediaGranted_def
    mediaDenied_def ondataavailable_def onstop_def sendAudioForTranscription_def
    handleInputChange_def handleSend_def Let_def split: option.splits list.splits)

lemma run_keeps_sessionId: "sessionId (run es s) = sessionId s"
  by (induction es arbitrary: s) (simp_all add: fire_keeps_sessionId)

lemma handleSend_request:
  "requests (handleSend now s) = requests s \<or>
   requests (handleSend now s) = requests s @ [PostText ''process_text'' (trim (inputText s)) None]"
  by (simp add: handleSend_def Let_def)

lemma handleSendMessage_request:
  assumes "trim (inputText s) \<noteq> []" "\<not> isLoading s" "truthy (token a)" "elderlyData a \<noteq> None"
    "\<not> isProcessingAudio s"
  shows "requests (fst (handleSendMessage a now resp s)) =
           requests s @ [PostChatElderly (trim (inputText s)) (sessionId s)]"
  using assms by (cases resp) (simp_all add: handleSendMessage_def Let_def)

lemma handleSendMessage_keeps_session:
  assumes "truthy (sessionId s)"
  shows "sessionId (fst (handleSendMessage a now resp s)) = sessionId s"
  using assms by (cases resp) (simp_all add: handleSendMessage_def Let_def)

lemma handleSendMessage_caches_session:
  assumes "trim (inputText s) \<noteq> []" "\<not> isLoading s" "truthy (token a)" "elderlyData a \<noteq> None"
    "\<not> isProcessingAudio s"
    and "\<not> truthy (sessionId s)" "success_c r" "truthy (response_c r)" "truthy (sessionId_c r)"
  shows "sessionId (fst (handleSendMessage a now (Body r) s)) = sessionId_c r"
  using assms by (auto simp add: handleSendMessage_def Let_def)

text \<open>
  C3 on the code. In the component that sends through the hooks, the first text call
  is answered by a body carrying the session id \<^verbatim>\<open>session-1\<close>. The id is not
  stored, and neither the second text call nor the audio call after it carries a
  session id.
\<close>

theorem session_id_neither_cached_nor_sent:
  "sessionId_body text_reply = Some ''session-1'' \<and>
   sessionId (run [InputChange ''hello'', PressEnter 1000, TextSettled 2000 (Returns (Some text_reply))]
                initialChat) = None \<and>
   requests (run ([InputChange ''hello'', PressEnter 1000, TextSettled 2000 (Returns (Some text_reply)),
                   InputChange ''again'', PressEnter 3000, TextSettled 4000 (Returns (Some text_reply)),
                   ClickMic, MediaGranted, DataAvailable ''chunk'', ClickMic, RecorderStopped 5000])
                initialChat) =
     [PostText ''process_text'' ''hello'' None,
      PostText ''process_text'' ''again'' None,
      PostAudio ''process_audio'' [''chunk''] None]"
  by (simp add: initialChat_def text_reply_def handleInputChange_def handleSend_def trim_def
      isSpace_def processTextSettled_def textResponseEffect_def handleMicToggle_def
      startRecording_def stopRecording_def mediaGranted_def ondataavailable_def onstop_def
      sendAudioForTranscription_def or_else_def truthy_def Let_def)

text \<open>
  C5 on the code. A successful audio call appends the assistant's reply twice: once in
  the first update of the list and once more through \<^verbatim>\<open>newMessages\<close>. A text call
  and an audio call that fail leave both error strings empty, and the loading flag the
  call had set stays set.
\<close>

theorem audio_reply_appended_twice_and_failures_silent:
  "messages (run (one_recording @ [AudioSettled 2000 (Returns (Some voice_reply))]) initialChat) =
     [\<lparr>role = User, content = ''good morning'', timestamp = 1000\<rparr>,
      \<lparr>role = Assistant, content = ''Good morning, Asha!'', timestamp = 2000\<rparr>,
      \<lparr>role = Assistant, content = ''Good morning, Asha!'', timestamp = 2000\<rparr>] \<and>
   error (run [InputChange ''hello'', PressEnter 1000, TextSettled 2000 Throws] initialChat) = [] \<and>
   audioError (run [InputChange ''hello'', PressEnter 1000, TextSettled 2000 Throws] initialChat) = [] \<and>
   isLoading (run [InputChange ''hello'', PressEnter 1000, TextSettled 2000 Throws] initialChat) \<and>
   messages (run [InputChange ''hello'', PressEnter 1000, TextSettled 2000 Throws] initialChat) =
     [\<lparr>role = User, content = ''hello'', timestamp = 1000\<rparr>] \<and>
   error (run (one_recording @ [AudioSettled 2000 Throws]) initialChat) = [] \<and>
   audioError (run (one_recording @ [AudioSettled 2000 Throws]) initialChat) = [] \<and>
   isProcessingAudio (run (one_recording @ [AudioSettled 2000 Throws]) initialChat)"
  by (simp add: one_recording_def initialChat_def voice_reply_def handleInputChange_def
      handleSend_def trim_def isSpace_def processTextSettled_def handleMicToggle_def
      startRecording_def stopRecording_def mediaGranted_def ondataavailable_def onstop_def
      sendAudioForTranscription_def processAudioSettled_def audioResponseEffect_def
      or_else_def truthy_def voice_placeholder_def voice_fallback_def Let_def)

lemma handleMicToggle_while_recording:
  "isRecording s \<Longrightarrow> handleMicToggle s = stopRecording (s\<lparr>audioUnlockedRef := True\<rparr>)"
  by (simp add: handleMicToggle_def Let_def)

lemma stopRecording_starts_nothing:
  "pendingMedia (stopRecording s) = pendingMedia s \<and>
   length (recorders (stopRecording s)) = length (recorders s) \<and>
   activeCaptures (stopRecording s) \<le> activeCaptures s"
proof -
  have "length (filter (\<lambda>b. b) (xs[r := False])) \<le> length (filter (\<lambda>b. b) xs)" for xs :: "bool list" and r
  proof (induction xs arbitrary: r)
    case Nil
    then show ?case by simp
  next
    case (Cons x xs)
    then show ?case
      by (cases r) (auto simp add: le_SucI)
  qed
  then show ?thesis
    by (simp add: stopRecording_def activeCaptures_def split: option.splits)
qed

text \<open>
  C7 on the code. The microphone is clicked twice before the browser hands out the
  first stream. At the second click \<^verbatim>\<open>isRecording\<close> is still false, so the click
  starts a second recording instead of being rejected; once both streams are given,
  two recorders are recording at once.
\<close>

theorem second_click_before_stream_starts_second_capture:
  "\<not> isRecording (run [ClickMic] initialChat) \<and>
   pendingMedia (run [ClickMic, ClickMic] initialChat) = [[], []] \<and>
   recorders (run [ClickMic, ClickMic, MediaGranted, MediaGranted] initialChat) = [True, True] \<and>
   activeCaptures (run [ClickMic, ClickMic, MediaGranted, MediaGranted] initialChat) = 2 \<and>
   activeCaptures (run [ClickMic, ClickMic, MediaGranted, MediaGranted, ClickMic] initialChat) = 1 \<and>
   activeCaptures (run [ClickMic, ClickMic, MediaGranted, MediaGranted, ClickMic, ClickMic, MediaGranted]
                     initialChat) = 2"
  by (simp add: initialChat_def handleMicToggle_def startRecording_def stopRecording_def
      mediaGranted_def activeCaptures_def Let_def)

end
